theory Spec2Isabelle
  imports Complex_Main "HOL-Library.AList"
begin

section \<open>Design value checker and similar-data search (src/demo/main.py)\<close>

text \<open>
  The program is one Python script: four pure helpers (\<open>validate_input\<close>,
  \<open>get_sheet_names\<close>, \<open>calculate_average_error\<close>, \<open>get_top_similar_data\<close>), one
  formatter (\<open>prepare_chat_context\<close>) and a top level that keeps its state in the
  session object of the form toolkit.

  Numbers. Every number of the script is a Python \<open>float\<close>; the model uses \<open>real\<close>, so it
  says nothing about rounding, \<open>nan\<close> or an infinite user value. The one infinity of the
  source, the upper bound \<open>float("inf")\<close> of the gap rule, is the bound \<open>Infinity\<close>.

  Names. The dictionary keys, sheet names and column names of the source are Japanese.
  They are written here in Latin letters, one ASCII string per source string:
  \<^item> \<open>kiban_nagasa_mm\<close>: substrate length, the first key of \<open>RULES\<close> (line 12);
  \<^item> \<open>kiban_haba_mm\<close>: substrate width (line 13);
  \<^item> \<open>kiban_atsumi_mm\<close>: substrate thickness (line 14);
  \<^item> \<open>haisen_haba_mm\<close>: trace width (line 15);
  \<^item> \<open>haisenkan_gap_mm\<close>: gap between traces (line 16);
  \<^item> \<open>haisen_honsuu\<close>, \<open>shinshuku_ritsu_pct\<close>, \<open>shinshuku_kaisuu\<close>, \<open>ondo_C\<close>: trace
    count, stretch ratio in percent, stretch cycles and temperature, the four
    \<open>ADDITIONAL_KEYS\<close> in their order (line 19);
  \<^item> \<open>ogata_denki\<close>, \<open>ogata_kikai\<close>: the sheets of the large products, electrical and
    mechanical (line 33); \<open>kogata_denki\<close>, \<open>kogata_kikai\<close>: those of the small
    products (line 34);
  \<^item> \<open>gosa_heikin\<close>: the column of the error mean (line 43); \<open>sheet_mei\<close>: the column
    of the sheet name (line 44).
\<close>

subsection \<open>Python values\<close>

text \<open>
  A dictionary of user values maps a key to a number or to Python's \<open>None\<close>: the inner
  \<open>option\<close> is the value (\<open>None\<close> for Python's \<open>None\<close>), the outer one says whether
  the key is in the dictionary.
\<close>

type_synonym pyval = "real option"
type_synonym pydict = "string \<rightharpoonup> pyval"

definition dict_get :: "pydict \<Rightarrow> string \<Rightarrow> pyval \<Rightarrow> pyval" where
  \<comment> \<open>\<open>d.get(key, default)\<close>: the default only when the key is absent.\<close>
  "dict_get d key dflt = (case d key of None \<Rightarrow> dflt | Some v \<Rightarrow> v)"

subsection \<open>The design rules (lines 11-19)\<close>

datatype bound = Finite real | Infinity

fun le_bound :: "real \<Rightarrow> bound \<Rightarrow> bool" where
  "le_bound v (Finite u) = (v \<le> u)"
| "le_bound v Infinity = True"

definition RULES :: "(string \<times> real \<times> bound) list" where
  "RULES =
    [(''kiban_nagasa_mm'', 50, Finite 200),
     (''kiban_haba_mm'', 30, Finite 100),
     (''kiban_atsumi_mm'', 0.1, Finite 1.0),
     (''haisen_haba_mm'', 0.2, Finite 5.0),
     (''haisenkan_gap_mm'', 0.5, Infinity)]"

definition ADDITIONAL_KEYS :: "string list" where
  "ADDITIONAL_KEYS =
    [''haisen_honsuu'', ''shinshuku_ritsu_pct'', ''shinshuku_kaisuu'', ''ondo_C'']"

subsection \<open>\<open>validate_input\<close> (lines 21-28)\<close>

definition invalid_value :: "pyval \<Rightarrow> real \<Rightarrow> bound \<Rightarrow> bool" where
  \<comment> \<open>The test of line 26: \<open>val is None or not (lower <= val <= upper)\<close>.\<close>
  "invalid_value val lower upper =
     (case val of None \<Rightarrow> True | Some v \<Rightarrow> \<not> (lower \<le> v \<and> le_bound v upper))"

fun validate_loop ::
  "(string \<times> real \<times> bound) list \<Rightarrow> pydict \<Rightarrow> string list \<Rightarrow> string list" where
  "validate_loop [] inputs invalid_fields = invalid_fields"
| "validate_loop ((key, lower, upper) # rules) inputs invalid_fields =
     (let val = dict_get inputs key None in
      if invalid_value val lower upper
      then validate_loop rules inputs (invalid_fields @ [key])
      else validate_loop rules inputs invalid_fields)"

definition validate_input :: "pydict \<Rightarrow> string list" where
  "validate_input inputs = validate_loop RULES inputs []"

text \<open>
  The claim's words, for comparison with the loop: a field is in violation when its value
  is missing (the key is absent or holds \<open>None\<close>) or lies outside the closed interval of
  its rule.
\<close>

definition field_missing :: "pydict \<Rightarrow> string \<Rightarrow> bool" where
  "field_missing inputs key = (inputs key = None \<or> inputs key = Some None)"

fun outside_range :: "real \<Rightarrow> real \<Rightarrow> bound \<Rightarrow> bool" where
  "outside_range v lower (Finite upper) = (v < lower \<or> upper < v)"
| "outside_range v lower Infinity = (v < lower)"

definition spec_violation :: "pydict \<Rightarrow> string \<times> real \<times> bound \<Rightarrow> bool" where
  "spec_violation inputs rule =
     (case rule of (key, lower, upper) \<Rightarrow>
        field_missing inputs key \<or>
        (\<exists>v. inputs key = Some (Some v) \<and> outside_range v lower upper))"

subsection \<open>\<open>get_sheet_names\<close> (lines 30-34)\<close>

definition large_pair :: "string list" where
  "large_pair = [''ogata_denki'', ''ogata_kikai'']"

definition small_pair :: "string list" where
  "small_pair = [''kogata_denki'', ''kogata_kikai'']"

definition get_sheet_names :: "real \<Rightarrow> real \<Rightarrow> string list" where
  "get_sheet_names length_mm width_mm =
     (if length_mm \<ge> 126 \<or> width_mm \<ge> 51 then large_pair else small_pair)"

subsection \<open>Data frames\<close>

text \<open>
  A sheet of the workbook is a table: its column names in order, and its rows in order.
  A row is an association list from a column name to a cell, in the order of the columns.
  A cell is a number or a text. The tables of the library can also hold \<open>nan\<close> where a
  value is absent; the model has no \<open>nan\<close> (see Numbers), so a read of a cell that a row
  does not hold is the error \<open>NanUnsupported\<close>, a result the source does not have.
  The row labels (the index) are not modelled: the script never reads them. The
  operations of the table library are modelled by what they do to such a table row by
  row: a column assignment stores one value per row, \<open>concat\<close> appends the rows of the
  second table to those of the first, and \<open>apply(..., axis=1)\<close> calls its function on
  every row in order (on a table without rows it behaves as \<open>apply_rows\<close> below says).
\<close>

datatype cell = Num real | Str string

type_synonym row = "(string \<times> cell) list"

record dataframe =
  df_columns :: "string list"
  df_rows :: "row list"

datatype error = KeyError string | TypeError | ValueError | AttributeError | NanUnsupported
  | DataSourceError string | ChatError string

definition empty_df :: dataframe where
  \<comment> \<open>\<open>pd.DataFrame()\<close>\<close>
  "empty_df = \<lparr>df_columns = [], df_rows = []\<rparr>"

definition set_column :: "string \<Rightarrow> cell list \<Rightarrow> dataframe \<Rightarrow> dataframe" where
  \<comment> \<open>\<open>df[col] = values\<close>, one value per row: an existing column keeps its place, a new
      one is added last.\<close>
  "set_column col vals df =
     \<lparr>df_columns = (if col \<in> set (df_columns df) then df_columns df
                     else df_columns df @ [col]),
      df_rows = map (\<lambda>(r, v). AList.update col v r) (zip (df_rows df) vals)\<rparr>"

definition concat_df :: "dataframe \<Rightarrow> dataframe \<Rightarrow> dataframe" where
  \<comment> \<open>\<open>pd.concat([a, b])\<close>: the rows of \<open>a\<close>, then those of \<open>b\<close>; the columns of \<open>a\<close>,
      then the new ones of \<open>b\<close>.\<close>
  "concat_df a b =
     \<lparr>df_columns = df_columns a @ filter (\<lambda>c. c \<notin> set (df_columns a)) (df_columns b),
      df_rows = df_rows a @ df_rows b\<rparr>"

fun cells_of :: "string \<Rightarrow> row list \<Rightarrow> error + cell list" where
  "cells_of col [] = Inr []"
| "cells_of col (r # rs) =
     (case map_of r col of
        None \<Rightarrow> Inl NanUnsupported
      | Some c \<Rightarrow> (case cells_of col rs of Inl e \<Rightarrow> Inl e | Inr cs \<Rightarrow> Inr (c # cs)))"

definition column_values :: "string \<Rightarrow> dataframe \<Rightarrow> error + cell list" where
  \<comment> \<open>\<open>df[col]\<close>: KeyError when the table has no such column.\<close>
  "column_values col df =
     (if col \<in> set (df_columns df) then cells_of col (df_rows df) else Inl (KeyError col))"

subsection \<open>\<open>calculate_average_error\<close> (lines 36-46)\<close>

definition score_col :: string where
  "score_col = ''gosa_heikin''"

definition sheet_col :: string where
  "sheet_col = ''sheet_mei''"

definition cols :: "string list" where
  "cols = [''kiban_nagasa_mm'', ''kiban_haba_mm'', ''kiban_atsumi_mm'', ''haisen_haba_mm'',
           ''haisen_honsuu'', ''shinshuku_ritsu_pct'', ''shinshuku_kaisuu'', ''ondo_C'']"

definition user_vector :: "pydict \<Rightarrow> pyval list" where
  \<comment> \<open>Line 42: \<open>[user_input.get(col, 0) for col in cols]\<close>.\<close>
  "user_vector user_input = map (\<lambda>col. dict_get user_input col (Some 0)) cols"

fun abs_diff :: "pyval \<Rightarrow> cell \<Rightarrow> error + real" where
  \<comment> \<open>One component of \<open>np.abs(user_vector - row.values)\<close>: \<open>None - x\<close> and \<open>u - text\<close>
      raise TypeError.\<close>
  "abs_diff (Some u) (Num x) = Inr \<bar>u - x\<bar>"
| "abs_diff None c = Inl TypeError"
| "abs_diff (Some u) (Str s) = Inl TypeError"

fun abs_diffs :: "pyval list \<Rightarrow> cell list \<Rightarrow> error + real list" where
  "abs_diffs (u # us) (c # cs) =
     (case abs_diff u c of
        Inl e \<Rightarrow> Inl e
      | Inr d \<Rightarrow> (case abs_diffs us cs of Inl e \<Rightarrow> Inl e | Inr ds \<Rightarrow> Inr (d # ds)))"
| "abs_diffs us cs = Inr []"

definition np_mean :: "real list \<Rightarrow> real" where
  "np_mean ds = sum_list ds / real (length ds)"

fun row_values :: "string list \<Rightarrow> row \<Rightarrow> error + cell list" where
  \<comment> \<open>\<open>row.values\<close> of a row of \<open>df[cols]\<close>: the cells of the row in the order of \<open>cols\<close>.\<close>
  "row_values [] r = Inr []"
| "row_values (col # cs) r =
     (case map_of r col of
        None \<Rightarrow> Inl NanUnsupported
      | Some c \<Rightarrow> (case row_values cs r of Inl e \<Rightarrow> Inl e | Inr vs \<Rightarrow> Inr (c # vs)))"

definition score_row :: "pyval list \<Rightarrow> row \<Rightarrow> error + real" where
  \<comment> \<open>The lambda of line 43.\<close>
  "score_row uv r =
     (case row_values cols r of
        Inl e \<Rightarrow> Inl e
      | Inr vs \<Rightarrow> (case abs_diffs uv vs of Inl e \<Rightarrow> Inl e | Inr ds \<Rightarrow> Inr (np_mean ds)))"

fun score_rows :: "pyval list \<Rightarrow> row list \<Rightarrow> error + real list" where
  \<comment> \<open>The lambda of line 43 on every row, in order; the first exception ends it.\<close>
  "score_rows uv [] = Inr []"
| "score_rows uv (r # rs) =
     (case score_row uv r of
        Inl e \<Rightarrow> Inl e
      | Inr s \<Rightarrow> (case score_rows uv rs of Inl e \<Rightarrow> Inl e | Inr ss \<Rightarrow> Inr (s # ss)))"

definition apply_rows :: "pyval list \<Rightarrow> row list \<Rightarrow> error + real list" where
  \<comment> \<open>\<open>df_filtered.apply(..., axis=1)\<close> and the assignment of its result in line 43. On a
      table with rows, the lambda runs on every row. On a table without rows the library
      calls the lambda once, on a row of \<open>nan\<close>, to learn what it returns: with numbers
      for the user's values that call returns and the result is an empty column; with a
      \<open>None\<close> among them it raises, the library then hands back a table in place of a
      column, and the assignment raises ValueError.\<close>
  "apply_rows uv rs =
     (if rs = [] then (if None \<in> set uv then Inl ValueError else Inr [])
      else score_rows uv rs)"

definition missing_cols :: "dataframe \<Rightarrow> string list" where
  "missing_cols df = filter (\<lambda>c. c \<notin> set (df_columns df)) cols"

definition tag_frame :: "string \<Rightarrow> real list \<Rightarrow> dataframe \<Rightarrow> dataframe" where
  \<comment> \<open>The two assignments of lines 43 and 44: the column of the error means, then the
      column that holds the sheet name in every row.\<close>
  "tag_frame sheet_name scores df =
     (let df1 = set_column score_col (map Num scores) df
      in set_column sheet_col (replicate (length (df_rows df1)) (Str sheet_name)) df1)"

text \<open>
  The loop of lines 40-45. The frames of \<open>dfs\<close> are objects that the loop changes in
  place (\<open>df[...] = ...\<close>), so the function returns, beside its result, the dictionary as
  the caller finds it afterwards: explicit state passing. An exception leaves the frames
  changed so far as they are.
\<close>

fun error_loop ::
  "pydict \<Rightarrow> (string \<times> dataframe) list \<Rightarrow> dataframe
     \<Rightarrow> (error + dataframe) \<times> (string \<times> dataframe) list" where
  "error_loop user_input [] combined_results = (Inr combined_results, [])"
| "error_loop user_input ((sheet_name, df) # rest) combined_results =
     (case missing_cols df of
        c # _ \<Rightarrow> (Inl (KeyError c), (sheet_name, df) # rest)
      | [] \<Rightarrow>
        (case apply_rows (user_vector user_input) (df_rows df) of
           Inl e \<Rightarrow> (Inl e, (sheet_name, df) # rest)
         | Inr scores \<Rightarrow>
            (let df' = tag_frame sheet_name scores df;
                 (res, rest') = error_loop user_input rest (concat_df combined_results df')
             in (res, (sheet_name, df') # rest'))))"

text \<open>
  \<open>sort_values(by=...)\<close> is the library's sort with its default algorithm
  (\<open>kind='quicksort'\<close>), which is not part of this repository. The model takes it as a
  parameter \<open>srt\<close>, a function that orders rows by a numeric key, and assumes nothing of
  it: what the ranking returns is that function applied to the tagged records. The order
  in which the library leaves records of equal key is therefore not decided here.
\<close>

type_synonym sorter = "(row \<Rightarrow> real) \<Rightarrow> row list \<Rightarrow> row list"

definition num_of :: "string \<Rightarrow> row \<Rightarrow> real option" where
  "num_of col r = (case map_of r col of Some (Num x) \<Rightarrow> Some x | _ \<Rightarrow> None)"

definition score_of :: "row \<Rightarrow> real" where
  \<comment> \<open>The sort key of a row whose error mean is a number.\<close>
  "score_of r = the (num_of score_col r)"

definition sort_values :: "sorter \<Rightarrow> dataframe \<Rightarrow> error + dataframe" where
  \<comment> \<open>\<open>df.sort_values(by=score_col)\<close>: KeyError without that column.\<close>
  "sort_values srt df =
     (if score_col \<notin> set (df_columns df) then Inl (KeyError score_col)
      else if list_ex (\<lambda>r. num_of score_col r = None) (df_rows df) then Inl NanUnsupported
      else Inr (df\<lparr>df_rows := srt score_of (df_rows df)\<rparr>))"

definition calculate_average_error ::
  "sorter \<Rightarrow> (string \<times> dataframe) list \<Rightarrow> pydict
     \<Rightarrow> (error + dataframe) \<times> (string \<times> dataframe) list" where
  "calculate_average_error srt dfs user_input =
     (case error_loop user_input dfs empty_df of
        (Inl e, dfs') \<Rightarrow> (Inl e, dfs')
      | (Inr combined_results, dfs') \<Rightarrow> (sort_values srt combined_results, dfs'))"

subsection \<open>\<open>get_top_similar_data\<close> (lines 48-54)\<close>

fun unique_from :: "'a list \<Rightarrow> 'a list \<Rightarrow> 'a list" where
  "unique_from seen [] = []"
| "unique_from seen (x # xs) =
     (if x \<in> set seen then unique_from seen xs else x # unique_from (x # seen) xs)"

definition unique :: "'a list \<Rightarrow> 'a list" where
  \<comment> \<open>\<open>Series.unique()\<close>: the distinct values in the order of their first appearance.\<close>
  "unique xs = unique_from [] xs"

definition head :: "int \<Rightarrow> 'a list \<Rightarrow> 'a list" where
  \<comment> \<open>\<open>DataFrame.head(n)\<close>: the first \<open>n\<close> rows; for a negative \<open>n\<close>, all but the last
      \<open>-n\<close> rows.\<close>
  "head n xs = (if 0 \<le> n then take (nat n) xs else take (length xs - nat (- n)) xs)"

definition select_sheet :: "cell \<Rightarrow> dataframe \<Rightarrow> dataframe" where
  \<comment> \<open>\<open>similar_data[similar_data[sheet_col] == sheet_name]\<close>\<close>
  "select_sheet sheet_name similar_data =
     similar_data\<lparr>df_rows := filter (\<lambda>r. map_of r sheet_col = Some sheet_name)
                                   (df_rows similar_data)\<rparr>"

definition get_top_similar_data ::
  "dataframe \<Rightarrow> int \<Rightarrow> error + (cell \<times> dataframe) list" where
  "get_top_similar_data similar_data n =
     (case column_values sheet_col similar_data of
        Inl e \<Rightarrow> Inl e
      | Inr names \<Rightarrow>
          Inr (map (\<lambda>sheet_name.
                  (sheet_name,
                   (select_sheet sheet_name similar_data)
                     \<lparr>df_rows := head n (df_rows (select_sheet sheet_name similar_data))\<rparr>))
                (unique names)))"

subsection \<open>The session and the outside world\<close>

text \<open>
  The script is run again from its first line on every action of the user. What survives
  from one run to the next is the session state (lines 64-72, 125-127); what one run reads
  from the page are its widgets; what it shows is a list of events, in order. The texts
  that the script shows are Japanese literals: an event says which line showed it, and
  carries only the values that line computes.

  The workbook reader, the sort of the tables, the rendering of a table or of a number as
  text, the JSON writer and the chat completion service are not code of this repository:
  they are the fields of \<open>library\<close>, and every theorem holds for any value of them. The
  fields of the session have the names of the source with the prefix \<open>st_\<close>. The
  chat service answers a request with an error (no credential, no connection) or with a
  stream: the chunks it delivers, each with a text or with none, and then either the end
  of the stream or an error raised in its middle.
\<close>

record message =
  role :: string
  content :: string

record session_state =
  st_inputs :: pydict
  st_additional_inputs :: pydict
  st_chat_mode :: bool
  st_messages :: "message list"
  st_context_data :: "string option"
  st_full_inputs_for_chat :: "pydict option"

definition none_for :: "string list \<Rightarrow> pydict" where
  \<comment> \<open>\<open>{key: None for key in keys}\<close>\<close>
  "none_for keys = (\<lambda>key. if key \<in> set keys then Some None else None)"

definition init_session :: session_state where
  \<comment> \<open>Lines 65-72, on the first run of a session. The two attributes of lines 126-127 do
      not exist yet.\<close>
  "init_session =
     \<lparr>st_inputs = none_for (map fst RULES),
      st_additional_inputs = none_for ADDITIONAL_KEYS,
      st_chat_mode = False,
      st_messages = [],
      st_context_data = None,
      st_full_inputs_for_chat = None\<rparr>"

datatype entry = Blank | Number real | NotNumber

record widgets =
  text_input :: "string \<Rightarrow> entry"
  chat_button :: bool
  openai_api_key :: string
  back_button :: bool
  chat_input :: string

type_synonym stream = "string option list \<times> error option"

record library =
  lib_read_excel :: "string \<Rightarrow> error + dataframe"
  lib_sort :: sorter
  lib_to_string :: "dataframe \<Rightarrow> string"
  lib_str :: "cell \<Rightarrow> string"
  lib_json_dumps :: "pydict \<Rightarrow> string"
  lib_chat :: "string \<Rightarrow> message list \<Rightarrow> error + stream"

datatype ui_event =
    NotANumber string
  | NotDesignable "string list"
  | Designable
  | ResultsHeading
  | ShowTable dataframe
  | TopHeading
  | SearchError error
  | ChatHistory message
  | ApiKeyMissing
  | UserBubble string
  | Partial string
  | FinalText string
  | ChatFailed error

datatype outcome = Finished | Stopped | Rerun

subsection \<open>\<open>prepare_chat_context\<close> (lines 56-62)\<close>

definition context_header :: string where
  \<comment> \<open>The literal of line 58, in English: "similar data found:" and two newlines.\<close>
  "context_header = ''similar data found:'' @ [CHR 0x0A, CHR 0x0A]"

definition top5_label :: string where
  \<comment> \<open>The literal after the sheet name in line 60, in English, and a newline.\<close>
  "top5_label = '' top 5:'' @ [CHR 0x0A]"

definition prepare_chat_context :: "library \<Rightarrow> (cell \<times> dataframe) list \<Rightarrow> string" where
  "prepare_chat_context lib top_data =
     context_header @
     concat (map (\<lambda>(sheet_name, data).
                [CHR 0x0A] @ lib_str lib sheet_name @ top5_label @ lib_to_string lib data)
             top_data)"

subsection \<open>The input form (lines 77-104)\<close>

fun fill_fields :: "string list \<Rightarrow> (string \<Rightarrow> entry) \<Rightarrow> pydict \<Rightarrow> string option \<times> pydict" where
  \<comment> \<open>The loops of lines 79-87 and 97-104: an empty field leaves the stored value as it
      is, a number is stored, anything else stops the run at that field.\<close>
  "fill_fields [] entries d = (None, d)"
| "fill_fields (key # keys) entries d =
     (case entries key of
        Blank \<Rightarrow> fill_fields keys entries d
      | Number x \<Rightarrow> fill_fields keys entries (d(key \<mapsto> Some x))
      | NotNumber \<Rightarrow> (Some key, d))"

definition form_block ::
  "session_state \<Rightarrow> widgets \<Rightarrow> ui_event list \<times> session_state \<times> outcome" where
  "form_block st w =
     (case fill_fields (map fst RULES) (text_input w) (st_inputs st) of
        (Some key, d) \<Rightarrow> ([NotANumber key], st\<lparr>st_inputs := d\<rparr>, Stopped)
      | (None, d) \<Rightarrow>
          (let st1 = st\<lparr>st_inputs := d\<rparr>;
               invalid_fields = validate_input d
           in if invalid_fields \<noteq> [] then ([NotDesignable invalid_fields], st1, Stopped)
              else (case fill_fields ADDITIONAL_KEYS (text_input w) (st_additional_inputs st1) of
                      (Some key, a) \<Rightarrow>
                        ([Designable, NotANumber key], st1\<lparr>st_additional_inputs := a\<rparr>, Stopped)
                    | (None, a) \<Rightarrow>
                        ([Designable], st1\<lparr>st_additional_inputs := a\<rparr>, Finished))))"

subsection \<open>The search (lines 106-130)\<close>

definition subscript :: "pydict \<Rightarrow> string \<Rightarrow> error + pyval" where
  \<comment> \<open>\<open>d[key]\<close>\<close>
  "subscript d key = (case d key of None \<Rightarrow> Inl (KeyError key) | Some v \<Rightarrow> Inr v)"

definition call_get_sheet_names :: "pyval \<Rightarrow> pyval \<Rightarrow> error + string list" where
  \<comment> \<open>The call of line 111 on what the session holds: \<open>None >= 126\<close> raises TypeError, and
      \<open>or\<close> does not look at the width when the length decides.\<close>
  "call_get_sheet_names length_mm width_mm =
     (case length_mm of
        None \<Rightarrow> Inl TypeError
      | Some l \<Rightarrow>
          (case width_mm of
             None \<Rightarrow> if l \<ge> 126 then Inr large_pair else Inl TypeError
           | Some w \<Rightarrow> Inr (get_sheet_names l w)))"

fun load_sheets :: "(string \<Rightarrow> error + dataframe) \<Rightarrow> string list
    \<Rightarrow> error + (string \<times> dataframe) list" where
  \<comment> \<open>The dictionary comprehension of line 112: the sheets are read in order, and the
      first that cannot be read raises.\<close>
  "load_sheets rd [] = Inr []"
| "load_sheets rd (sheet_name # sheet_names) =
     (case rd sheet_name of
        Inl e \<Rightarrow> Inl e
      | Inr df \<Rightarrow>
          (case load_sheets rd sheet_names of
             Inl e \<Rightarrow> Inl e
           | Inr dfs \<Rightarrow> Inr ((sheet_name, df) # dfs)))"

definition df_empty :: "dataframe \<Rightarrow> bool" where
  \<comment> \<open>\<open>DataFrame.empty\<close>\<close>
  "df_empty df = (df_rows df = [] \<or> df_columns df = [])"

definition ranked :: "library \<Rightarrow> session_state \<Rightarrow> error + dataframe" where
  \<comment> \<open>Lines 109-114: the statements of the \<open>try\<close> block up to the ranked table.\<close>
  "ranked lib st =
     (case subscript (st_inputs st) ''kiban_nagasa_mm'' of
        Inl e \<Rightarrow> Inl e
      | Inr length_mm \<Rightarrow>
     (case subscript (st_inputs st) ''kiban_haba_mm'' of
        Inl e \<Rightarrow> Inl e
      | Inr width_mm \<Rightarrow>
     (case call_get_sheet_names length_mm width_mm of
        Inl e \<Rightarrow> Inl e
      | Inr sheet_names \<Rightarrow>
     (case load_sheets (lib_read_excel lib) sheet_names of
        Inl e \<Rightarrow> Inl e
      | Inr dfs \<Rightarrow>
          fst (calculate_average_error (lib_sort lib) dfs
                 (st_inputs st ++ st_additional_inputs st))))))"

definition search_block ::
  "library \<Rightarrow> session_state \<Rightarrow> widgets \<Rightarrow> ui_event list \<times> session_state \<times> outcome" where
  "search_block lib st w =
     (case ranked lib st of
        Inl e \<Rightarrow> ([SearchError e], st, Finished)
      | Inr similar_data \<Rightarrow>
          (let shown = [ResultsHeading, ShowTable similar_data]
           in if df_empty similar_data then (shown, st, Finished)
              else (case get_top_similar_data similar_data 5 of
                      Inl e \<Rightarrow> (shown @ [SearchError e], st, Finished)
                    | Inr top_similar \<Rightarrow>
                        (let shown' = shown @ [TopHeading] @ map (\<lambda>(sheet_name, data). ShowTable data) top_similar
                         in if chat_button w
                            then (shown',
                                  st\<lparr>st_chat_mode := True,
                                     st_context_data := Some (prepare_chat_context lib top_similar),
                                     st_full_inputs_for_chat :=
                                       Some (st_inputs st ++ st_additional_inputs st)\<rparr>,
                                  Rerun)
                            else (shown', st, Finished)))))"

subsection \<open>The chat (lines 133-195)\<close>

definition prompt_intro :: string where
  \<comment> \<open>Lines 163-165 in English: the instruction and the heading of the design values.\<close>
  "prompt_intro = ''Answer as an employee of a company that manages substrates, from the data and the design values given.'' @ [CHR 0x0A, CHR 0x0A] @ ''design values entered:'' @ [CHR 0x0A]"

definition prompt_similar :: string where
  \<comment> \<open>Lines 167-168 in English: the heading of the similar data.\<close>
  "prompt_similar = [CHR 0x0A, CHR 0x0A] @ ''similar data found:'' @ [CHR 0x0A]"

definition prompt_outro :: string where
  \<comment> \<open>Lines 170-173 in English.\<close>
  "prompt_outro = [CHR 0x0A, CHR 0x0A] @ ''Answer with concrete numbers from the information above. Predict characteristic values from the mean, the variance and a regression of the similar data.'' @ [CHR 0x0A]"

definition system_content :: "string \<Rightarrow> string \<Rightarrow> string" where
  "system_content dumped context = prompt_intro @ dumped @ prompt_similar @ context @ prompt_outro"

definition chat_request :: "library \<Rightarrow> session_state \<Rightarrow> string \<Rightarrow> error + message list" where
  \<comment> \<open>Lines 163-178: the list \<open>messages\<close> that line 182 hands to the chat service. Reading
      an attribute that the session does not have raises AttributeError.\<close>
  "chat_request lib st user_input =
     (case st_full_inputs_for_chat st of
        None \<Rightarrow> Inl AttributeError
      | Some full_inputs \<Rightarrow>
          (case st_context_data st of
             None \<Rightarrow> Inl AttributeError
           | Some context \<Rightarrow>
               Inr [\<lparr>role = ''system'',
                     content = system_content (lib_json_dumps lib full_inputs) context\<rparr>,
                    \<lparr>role = ''user'', content = user_input\<rparr>]))"

fun consume :: "string option list \<Rightarrow> string \<Rightarrow> string \<times> ui_event list" where
  \<comment> \<open>The loop of lines 186-189 from the response so far: the full response, and what the
      placeholder showed on the way.\<close>
  "consume [] full_response = (full_response, [])"
| "consume (None # chunks) full_response = consume chunks full_response"
| "consume (Some delta # chunks) full_response =
     (let (final, shown) = consume chunks (full_response @ delta)
      in (final, Partial (full_response @ delta) # shown))"

definition chat_attempt ::
  "library \<Rightarrow> session_state \<Rightarrow> widgets \<Rightarrow> ui_event list \<times> (error + string)" where
  \<comment> \<open>The body of the \<open>try\<close> of lines 161-190: what it showed, and the exception it raised
      or the response it completed.\<close>
  "chat_attempt lib st w =
     (case chat_request lib st (chat_input w) of
        Inl e \<Rightarrow> ([], Inl e)
      | Inr request \<Rightarrow>
          (case lib_chat lib (openai_api_key w) request of
             Inl e \<Rightarrow> ([], Inl e)
           | Inr (chunks, failure) \<Rightarrow>
               (let (full_response, shown) = consume chunks []
                in case failure of
                     Some e \<Rightarrow> (shown, Inl e)
                   | None \<Rightarrow> (shown @ [FinalText full_response], Inr full_response))))"

definition chat_block ::
  "library \<Rightarrow> session_state \<Rightarrow> widgets \<Rightarrow> ui_event list \<times> session_state \<times> outcome" where
  "chat_block lib st w =
     (if back_button w
      then ([], st\<lparr>st_chat_mode := False, st_messages := []\<rparr>, Rerun)
      else
        (let history = map ChatHistory (st_messages st)
         in if chat_input w = [] then (history, st, Finished)
            else if openai_api_key w = [] then (history @ [ApiKeyMissing], st, Stopped)
            else
              (let st1 = st\<lparr>st_messages :=
                             st_messages st @ [\<lparr>role = ''user'', content = chat_input w\<rparr>]\<rparr>;
                   shown = history @ [UserBubble (chat_input w)]
               in case chat_attempt lib st1 w of
                    (shown', Inl e) \<Rightarrow> (shown @ shown' @ [ChatFailed e], st1, Finished)
                  | (shown', Inr full_response) \<Rightarrow>
                      (shown @ shown',
                       st1\<lparr>st_messages :=
                             st_messages st1 @ [\<lparr>role = ''assistant'', content = full_response\<rparr>]\<rparr>,
                       Finished))))"

definition run_script ::
  "library \<Rightarrow> session_state \<Rightarrow> widgets \<Rightarrow> ui_event list \<times> session_state \<times> outcome" where
  \<comment> \<open>One run of the script from line 74 on.\<close>
  "run_script lib st w =
     (if \<not> st_chat_mode st
      then (case form_block st w of
              (shown, st1, Finished) \<Rightarrow>
                (case search_block lib st1 w of
                   (shown', st2, out) \<Rightarrow> (shown @ shown', st2, out))
            | (shown, st1, out) \<Rightarrow> (shown, st1, out))
      else chat_block lib st w)"

subsection \<open>The claims' words about the ranking\<close>

text \<open>
  For comparison with the code: the value of the user for a scoring attribute, with 0
  for a missing one; the attribute of a record; the mean of the absolute differences over
  the 8 scoring attributes; a record tagged with its score and the name of its sheet; and
  the tagged records of all sheets, in the order of the sheets and of their rows.
\<close>

definition user_value :: "pydict \<Rightarrow> string \<Rightarrow> real" where
  "user_value ui c = (case ui c of Some (Some v) \<Rightarrow> v | _ \<Rightarrow> 0)"

definition attr :: "row \<Rightarrow> string \<Rightarrow> real" where
  "attr r c = (case map_of r c of Some (Num x) \<Rightarrow> x | _ \<Rightarrow> 0)"

definition mean_abs_diff :: "pydict \<Rightarrow> row \<Rightarrow> real" where
  "mean_abs_diff ui r = (\<Sum>c\<leftarrow>cols. \<bar>user_value ui c - attr r c\<bar>) / 8"

definition tag_row :: "pydict \<Rightarrow> string \<Rightarrow> row \<Rightarrow> row" where
  "tag_row ui sheet_name r =
     AList.update sheet_col (Str sheet_name)
       (AList.update score_col (Num (mean_abs_diff ui r)) r)"

definition tagged_rows :: "pydict \<Rightarrow> (string \<times> dataframe) list \<Rightarrow> row list" where
  "tagged_rows ui dfs =
     concat (map (\<lambda>(sheet_name, df). map (tag_row ui sheet_name) (df_rows df)) dfs)"

text \<open>
  Inputs on which the ranking returns: every needed value of the user is a number or its
  key is absent, and every sheet has the 8 scoring columns with a number in each of them
  in every row.
\<close>

definition numeric_row :: "row \<Rightarrow> bool" where
  "numeric_row r = list_all (\<lambda>c. num_of c r \<noteq> None) cols"

definition complete_frame :: "dataframe \<Rightarrow> bool" where
  "complete_frame df = (set cols \<subseteq> set (df_columns df) \<and> list_all numeric_row (df_rows df))"

definition numeric_user :: "pydict \<Rightarrow> bool" where
  "numeric_user user_input = list_all (\<lambda>c. user_input c \<noteq> Some None) cols"

definition rows_of_sheet :: "cell \<Rightarrow> dataframe \<Rightarrow> row list" where
  "rows_of_sheet name sd = filter (\<lambda>r. map_of r sheet_col = Some name) (df_rows sd)"

subsection \<open>Data of the scenarios\<close>

text \<open>
  Concrete inputs for the scenarios of the claims. \<open>user_150\<close> is a form with every field
  filled in; in \<open>user_blank_count\<close> the user left the trace count empty, so the session
  holds \<open>None\<close> under that key (line 68 puts every key into the dictionary, with \<open>None\<close>).
  The records \<open>record_A\<close> and \<open>record_B\<close> differ from \<open>user_150\<close> in one attribute each,
  by 16, so both have the error mean 2; \<open>record_C\<close> is the user's own vector.
\<close>

definition user_150 :: pydict where
  "user_150 =
     [''kiban_nagasa_mm'' \<mapsto> Some 150, ''kiban_haba_mm'' \<mapsto> Some 60,
      ''kiban_atsumi_mm'' \<mapsto> Some 0.5, ''haisen_haba_mm'' \<mapsto> Some 1,
      ''haisenkan_gap_mm'' \<mapsto> Some 1, ''haisen_honsuu'' \<mapsto> Some 4,
      ''shinshuku_ritsu_pct'' \<mapsto> Some 10, ''shinshuku_kaisuu'' \<mapsto> Some 100,
      ''ondo_C'' \<mapsto> Some 25]"

definition user_blank_count :: pydict where
  "user_blank_count = user_150(''haisen_honsuu'' \<mapsto> None)"

definition record_A :: row where
  "record_A =
     [(''kiban_nagasa_mm'', Num 166), (''kiban_haba_mm'', Num 60),
      (''kiban_atsumi_mm'', Num 0.5), (''haisen_haba_mm'', Num 1),
      (''haisen_honsuu'', Num 4), (''shinshuku_ritsu_pct'', Num 10),
      (''shinshuku_kaisuu'', Num 100), (''ondo_C'', Num 25)]"

definition record_B :: row where
  "record_B =
     [(''kiban_nagasa_mm'', Num 150), (''kiban_haba_mm'', Num 76),
      (''kiban_atsumi_mm'', Num 0.5), (''haisen_haba_mm'', Num 1),
      (''haisen_honsuu'', Num 4), (''shinshuku_ritsu_pct'', Num 10),
      (''shinshuku_kaisuu'', Num 100), (''ondo_C'', Num 25)]"

definition record_C :: row where
  "record_C =
     [(''kiban_nagasa_mm'', Num 150), (''kiban_haba_mm'', Num 60),
      (''kiban_atsumi_mm'', Num 0.5), (''haisen_haba_mm'', Num 1),
      (''haisen_honsuu'', Num 4), (''shinshuku_ritsu_pct'', Num 10),
      (''shinshuku_kaisuu'', Num 100), (''ondo_C'', Num 25)]"

definition sheet_A :: dataframe where
  "sheet_A = \<lparr>df_columns = cols, df_rows = [record_A]\<rparr>"

definition sheet_B :: dataframe where
  "sheet_B = \<lparr>df_columns = cols, df_rows = [record_B, record_C]\<rparr>"

definition dfs_AB :: "(string \<times> dataframe) list" where
  \<comment> \<open>The two sheets of the large products, in the order of line 33.\<close>
  "dfs_AB = [(''ogata_denki'', sheet_A), (''ogata_kikai'', sheet_B)]"

definition ranked_AB :: dataframe where
  \<comment> \<open>A ranked result of the two sheets for \<open>user_150\<close>: ascending, ties in input order.\<close>
  "ranked_AB =
     \<lparr>df_columns = cols @ [score_col, sheet_col],
      df_rows = [tag_row user_150 ''ogata_kikai'' record_C,
                 tag_row user_150 ''ogata_denki'' record_A,
                 tag_row user_150 ''ogata_kikai'' record_B]\<rparr>"

definition primary_150 :: pydict where
  "primary_150 =
     [''kiban_nagasa_mm'' \<mapsto> Some 150, ''kiban_haba_mm'' \<mapsto> Some 60,
      ''kiban_atsumi_mm'' \<mapsto> Some 0.5, ''haisen_haba_mm'' \<mapsto> Some 1,
      ''haisenkan_gap_mm'' \<mapsto> Some 1]"

definition secondary_150 :: pydict where
  "secondary_150 =
     [''haisen_honsuu'' \<mapsto> Some 4, ''shinshuku_ritsu_pct'' \<mapsto> Some 10,
      ''shinshuku_kaisuu'' \<mapsto> Some 100, ''ondo_C'' \<mapsto> Some 25]"

definition form_state :: session_state where
  \<comment> \<open>The session after the form of the scenario was filled in.\<close>
  "form_state = init_session\<lparr>st_inputs := primary_150, st_additional_inputs := secondary_150\<rparr>"

definition chat_state :: session_state where
  \<comment> \<open>The session in chat mode, after one question and its answer.\<close>
  "chat_state =
     form_state\<lparr>st_chat_mode := True,
                st_messages := [\<lparr>role = ''user'', content = ''q1''\<rparr>,
                                \<lparr>role = ''assistant'', content = ''a1''\<rparr>],
                st_context_data := Some ''context'',
                st_full_inputs_for_chat := Some user_150\<rparr>"

definition second_sheet_missing :: library where
  \<comment> \<open>A workbook that has the first sheet of the large products and not the second, and a
      chat service that delivers two pieces of text and then loses the connection.\<close>
  "second_sheet_missing =
     \<lparr>lib_read_excel = (\<lambda>sheet_name. if sheet_name = ''ogata_denki'' then Inr sheet_A
                                       else Inl (DataSourceError sheet_name)),
      lib_sort = sort_key,
      lib_to_string = (\<lambda>df. ''table''),
      lib_str = (\<lambda>c. case c of Str s \<Rightarrow> s | Num x \<Rightarrow> ''number''),
      lib_json_dumps = (\<lambda>d. ''json''),
      lib_chat = (\<lambda>key request.
                    Inr ([Some ''Hel'', None, Some ''lo''], Some (ChatError ''connection lost'')))\<rparr>"

definition no_widgets :: widgets where
  \<comment> \<open>A page on which nothing is typed or pressed.\<close>
  "no_widgets =
     \<lparr>text_input = (\<lambda>key. Blank), chat_button = False, openai_api_key = [],
      back_button = False, chat_input = []\<rparr>"

definition ask_q2 :: widgets where
  \<comment> \<open>The user has given a key and asks a second question.\<close>
  "ask_q2 = no_widgets\<lparr>openai_api_key := ''key'', chat_input := ''q2''\<rparr>"

definition request_q2 :: "message list" where
  \<comment> \<open>What line 182 hands to the chat service for that question.\<close>
  "request_q2 = [\<lparr>role = ''system'', content = system_content ''json'' ''context''\<rparr>,
                 \<lparr>role = ''user'', content = ''q2''\<rparr>]"

definition press_back :: widgets where
  \<comment> \<open>The user presses the button of line 137.\<close>
  "press_back = no_widgets\<lparr>back_button := True\<rparr>"

section \<open>Theorems\<close>

subsection \<open>Validator\<close>

lemma validate_loop_filter:
  "validate_loop rules inputs acc =
     acc @ map fst (filter (\<lambda>(key, lower, upper).
                      invalid_value (dict_get inputs key None) lower upper) rules)"
  by (induction rules inputs acc rule: validate_loop.induct) (simp_all add: Let_def)

lemma invalid_value_spec:
  "invalid_value (dict_get inputs key None) lower upper
     = spec_violation inputs (key, lower, upper)"
  by (cases upper; cases "inputs key"; cases "the (inputs key)")
     (auto simp: invalid_value_def dict_get_def spec_violation_def field_missing_def)

text \<open>
  C3. The validator returns exactly the names of the primary fields, in the order of
  \<open>RULES\<close>, whose value is missing or outside the closed range of the field's rule. A
  value equal to the lower or to the upper bound of its rule is not reported, and the name
  of a field that is absent or \<open>None\<close> is always reported.
\<close>

theorem validate_input_exact:
  "validate_input inputs = map fst (filter (spec_violation inputs) RULES)
   \<and> (\<forall>key lower upper v. (key, lower, upper) \<in> set RULES \<and> inputs key = Some (Some v)
        \<and> (v = lower \<or> Finite v = upper) \<longrightarrow> key \<notin> set (validate_input inputs))
   \<and> (\<forall>key lower upper. (key, lower, upper) \<in> set RULES \<and> field_missing inputs key
        \<longrightarrow> key \<in> set (validate_input inputs))"
proof -
  have filt: "filter (\<lambda>(key, lower, upper).
                 invalid_value (dict_get inputs key None) lower upper) RULES
              = filter (spec_violation inputs) RULES"
    by (rule filter_cong) (auto simp: invalid_value_spec)
  have exact: "validate_input inputs = map fst (filter (spec_violation inputs) RULES)"
    unfolding validate_input_def validate_loop_filter filt by simp
  have keys: "distinct (map fst RULES)"
    by (simp add: RULES_def)
  have mem: "key \<in> set (validate_input inputs) \<longleftrightarrow> spec_violation inputs (key, lower, upper)"
    if "(key, lower, upper) \<in> set RULES" for key lower upper
  proof
    assume "key \<in> set (validate_input inputs)"
    then obtain r where r: "r \<in> set RULES" "spec_violation inputs r" "fst r = key"
      unfolding exact by auto
    from keys r(1,3) that have "r = (key, lower, upper)"
      by (metis eq_key_imp_eq_value prod.collapse)
    with r(2) show "spec_violation inputs (key, lower, upper)" by simp
  next
    assume "spec_violation inputs (key, lower, upper)"
    with that show "key \<in> set (validate_input inputs)"
      unfolding exact by force
  qed
  have lower_le: "lower \<le> v \<and> le_bound v upper"
    if "(key, lower, upper) \<in> set RULES" "v = lower \<or> Finite v = upper" for key lower upper v
    using that by (auto simp: RULES_def)
  have bound_ok: "key \<notin> set (validate_input inputs)"
    if "(key, lower, upper) \<in> set RULES" "inputs key = Some (Some v)"
       "v = lower \<or> Finite v = upper" for key lower upper v
  proof -
    from lower_le[OF that(1,3)] have "\<not> outside_range v lower upper"
      by (cases upper) auto
    with that(2) have "\<not> spec_violation inputs (key, lower, upper)"
      by (simp add: spec_violation_def field_missing_def)
    with mem[OF that(1)] show ?thesis by simp
  qed
  have null_in: "key \<in> set (validate_input inputs)"
    if "(key, lower, upper) \<in> set RULES" "field_missing inputs key" for key lower upper
    using mem[OF that(1)] that(2) by (simp add: spec_violation_def)
  from exact bound_ok null_in show ?thesis by blast
qed

theorem validate_input_exact_witness:
  "(''kiban_nagasa_mm'', 50, Finite 200) \<in> set RULES
   \<and> (''kiban_atsumi_mm'', 0.1, Finite 1.0) \<in> set RULES
   \<and> ''kiban_nagasa_mm'' \<notin> set (validate_input
         [''kiban_nagasa_mm'' \<mapsto> Some 50, ''kiban_haba_mm'' \<mapsto> Some 100,
          ''kiban_atsumi_mm'' \<mapsto> None, ''haisen_haba_mm'' \<mapsto> Some 7])
   \<and> ''kiban_atsumi_mm'' \<in> set (validate_input
         [''kiban_nagasa_mm'' \<mapsto> Some 50, ''kiban_haba_mm'' \<mapsto> Some 100,
          ''kiban_atsumi_mm'' \<mapsto> None, ''haisen_haba_mm'' \<mapsto> Some 7])
   \<and> validate_input
         [''kiban_nagasa_mm'' \<mapsto> Some 50, ''kiban_haba_mm'' \<mapsto> Some 100,
          ''kiban_atsumi_mm'' \<mapsto> None, ''haisen_haba_mm'' \<mapsto> Some 7]
       = [''kiban_atsumi_mm'', ''haisen_haba_mm'', ''haisenkan_gap_mm'']"
proof -
  let ?inp = "[''kiban_nagasa_mm'' \<mapsto> Some 50, ''kiban_haba_mm'' \<mapsto> Some 100,
          ''kiban_atsumi_mm'' \<mapsto> None, ''haisen_haba_mm'' \<mapsto> Some (7::real)]"
  note T = validate_input_exact[of ?inp]
  have r1: "(''kiban_nagasa_mm'', 50, Finite 200) \<in> set RULES"
    and r2: "(''kiban_atsumi_mm'', 0.1, Finite 1.0) \<in> set RULES"
    by (simp_all add: RULES_def)
  have v1: "?inp ''kiban_nagasa_mm'' = Some (Some 50)" by simp
  have m2: "field_missing ?inp ''kiban_atsumi_mm''" by (simp add: field_missing_def)
  from T r1 v1 have a: "''kiban_nagasa_mm'' \<notin> set (validate_input ?inp)" by blast
  from T r2 m2 have b: "''kiban_atsumi_mm'' \<in> set (validate_input ?inp)" by blast
  have c: "validate_input ?inp = [''kiban_atsumi_mm'', ''haisen_haba_mm'', ''haisenkan_gap_mm'']"
    by (simp add: validate_input_def RULES_def dict_get_def invalid_value_def)
  from r1 r2 a b c show ?thesis by simp
qed

subsection \<open>Sheet selector\<close>

text \<open>
  C4. The sheet selector is total and has exactly two outputs: the large pair if and only
  if the length is at least 126 or the width is at least 51, the small pair otherwise; the
  two pairs differ, and length 125.999 with width 50.999 selects the small pair.
\<close>

theorem get_sheet_names_bimodal:
  "get_sheet_names l w = (if 126 \<le> l \<or> 51 \<le> w then large_pair else small_pair)
   \<and> (get_sheet_names l w = large_pair) = (126 \<le> l \<or> 51 \<le> w)
   \<and> (get_sheet_names l w = small_pair) = (l < 126 \<and> w < 51)
   \<and> large_pair \<noteq> small_pair
   \<and> length (get_sheet_names l w) = 2
   \<and> get_sheet_names 126 0 = large_pair
   \<and> get_sheet_names 0 51 = large_pair
   \<and> get_sheet_names 125.999 50.999 = small_pair"
  by (auto simp: get_sheet_names_def large_pair_def small_pair_def)

subsection \<open>Similarity ranker: what a run that returns has computed\<close>

lemma abs_diffs_cols:
  "row_values cs r = Inr vs \<Longrightarrow>
   abs_diffs (map (\<lambda>c. dict_get ui c (Some 0)) cs) vs = Inr ds \<Longrightarrow>
   ds = map (\<lambda>c. \<bar>user_value ui c - attr r c\<bar>) cs"
proof (induction cs arbitrary: vs ds)
  case Nil
  then show ?case by simp
next
  case (Cons c cs)
  from Cons.prems(1) obtain v vs' where v: "map_of r c = Some v" "row_values cs r = Inr vs'" "vs = v # vs'"
    by (auto split: option.splits sum.splits)
  from Cons.prems(2) v(3) obtain d ds' where d: "abs_diff (dict_get ui c (Some 0)) v = Inr d"
      "abs_diffs (map (\<lambda>c. dict_get ui c (Some 0)) cs) vs' = Inr ds'" "ds = d # ds'"
    by (auto split: sum.splits)
  from d(1) v(1) have "d = \<bar>user_value ui c - attr r c\<bar>"
    by (cases "dict_get ui c (Some 0)"; cases v; cases "ui c")
       (auto simp: user_value_def attr_def dict_get_def)
  with Cons.IH[OF v(2) d(2)] d(3) show ?case by simp
qed

lemma score_row_Inr:
  assumes "score_row (user_vector ui) r = Inr s"
  shows "s = mean_abs_diff ui r"
proof -
  from assms obtain vs ds where vs: "row_values cols r = Inr vs"
    and ds: "abs_diffs (user_vector ui) vs = Inr ds" and s: "s = np_mean ds"
    unfolding score_row_def by (auto split: sum.splits)
  from abs_diffs_cols[OF vs ds[unfolded user_vector_def]]
  have "ds = map (\<lambda>c. \<bar>user_value ui c - attr r c\<bar>) cols" .
  moreover have "length cols = 8" by (simp add: cols_def)
  ultimately show ?thesis
    using s by (simp add: np_mean_def mean_abs_diff_def)
qed

lemma score_rows_mean:
  "score_rows (user_vector ui) rs = Inr ss \<Longrightarrow> ss = map (mean_abs_diff ui) rs"
proof (induction rs arbitrary: ss)
  case Nil
  then show ?case by simp
next
  case (Cons r rs)
  from Cons.prems obtain s ss' where s: "score_row (user_vector ui) r = Inr s"
    and ss': "score_rows (user_vector ui) rs = Inr ss'" and ss: "ss = s # ss'"
    by (auto split: sum.splits)
  from score_row_Inr[OF s] Cons.IH[OF ss'] ss show ?case by simp
qed

lemma apply_rows_mean:
  "apply_rows (user_vector ui) rs = Inr ss \<Longrightarrow> ss = map (mean_abs_diff ui) rs"
  by (cases "rs = []") (auto simp: apply_rows_def score_rows_mean split: if_splits)

lemma tag_frame_rows:
  "df_rows (tag_frame name (map (mean_abs_diff ui) (df_rows df)) df)
     = map (tag_row ui name) (df_rows df)"
  by (simp add: tag_frame_def set_column_def Let_def tag_row_def zip_map2 zip_same_conv_map
        zip_replicate2 comp_def map_zip_map2 split_def)

lemma tag_frame_columns:
  "score_col \<in> set (df_columns (tag_frame name scores df))
   \<and> sheet_col \<in> set (df_columns (tag_frame name scores df))
   \<and> set (df_columns df) \<subseteq> set (df_columns (tag_frame name scores df))"
  by (auto simp: tag_frame_def set_column_def Let_def)

lemma df_rows_concat: "df_rows (concat_df a b) = df_rows a @ df_rows b"
  by (simp add: concat_df_def)

lemma df_columns_concat: "set (df_columns (concat_df a b)) = set (df_columns a) \<union> set (df_columns b)"
  by (auto simp: concat_df_def)

lemma error_loop_Inr:
  "error_loop ui dfs comb = (Inr res, dfs') \<Longrightarrow>
     dfs' = map (\<lambda>(name, df). (name, tag_frame name (map (mean_abs_diff ui) (df_rows df)) df)) dfs
   \<and> df_rows res = df_rows comb @ tagged_rows ui dfs
   \<and> (dfs \<noteq> [] \<longrightarrow> score_col \<in> set (df_columns res))"
proof (induction dfs arbitrary: comb res dfs')
  case Nil
  then show ?case by (simp add: tagged_rows_def)
next
  case (Cons p dfs)
  obtain name df where p: "p = (name, df)" by (cases p)
  from Cons.prems p obtain scores rest' where
    sc: "apply_rows (user_vector ui) (df_rows df) = Inr scores"
    and rec: "error_loop ui dfs (concat_df comb (tag_frame name scores df)) = (Inr res, rest')"
    and d': "dfs' = (name, tag_frame name scores df) # rest'"
    by (auto split: list.splits sum.splits prod.splits simp: Let_def)
  from apply_rows_mean[OF sc] have scores: "scores = map (mean_abs_diff ui) (df_rows df)" .
  from Cons.IH[OF rec] have ih:
    "rest' = map (\<lambda>(name, df). (name, tag_frame name (map (mean_abs_diff ui) (df_rows df)) df)) dfs"
    "df_rows res = df_rows (concat_df comb (tag_frame name scores df)) @ tagged_rows ui dfs"
    "dfs \<noteq> [] \<longrightarrow> score_col \<in> set (df_columns res)"
    by simp_all
  have "score_col \<in> set (df_columns res)"
  proof (cases dfs)
    case Nil
    with rec have "res = concat_df comb (tag_frame name scores df)" by simp
    then show ?thesis using tag_frame_columns[of name scores df]
      by (simp add: df_columns_concat)
  next
    case (Cons a list)
    with ih(3) show ?thesis by simp
  qed
  with ih(1,2) d' p scores show ?case
    by (simp add: df_rows_concat tag_frame_rows tagged_rows_def)
qed

lemma score_of_tag_row: "num_of score_col (tag_row ui name r) = Some (mean_abs_diff ui r)"
  by (simp add: num_of_def tag_row_def update_conv' score_col_def sheet_col_def)

lemma sheet_of_tag_row: "map_of (tag_row ui name r) sheet_col = Some (Str name)"
  by (simp add: tag_row_def update_conv')

lemma tagged_rows_scored:
  "r \<in> set (tagged_rows ui dfs) \<Longrightarrow> num_of score_col r \<noteq> None"
  by (auto simp: tagged_rows_def score_of_tag_row)

lemma calculate_average_error_Inr:
  assumes "calculate_average_error srt dfs ui = (Inr res, dfs')"
  shows "dfs' = map (\<lambda>(name, df). (name, tag_frame name (map (mean_abs_diff ui) (df_rows df)) df)) dfs"
    and "df_rows res = srt score_of (tagged_rows ui dfs)"
proof -
  from assms obtain comb where
    loop: "error_loop ui dfs empty_df = (Inr comb, dfs')"
    and sv: "sort_values srt comb = Inr res"
    by (auto simp: calculate_average_error_def split: prod.splits sum.splits)
  from error_loop_Inr[OF loop] have
    a: "dfs' = map (\<lambda>(name, df). (name, tag_frame name (map (mean_abs_diff ui) (df_rows df)) df)) dfs"
    and b: "df_rows comb = tagged_rows ui dfs"
    by (simp_all add: empty_df_def)
  from sv have "res = comb\<lparr>df_rows := srt score_of (df_rows comb)\<rparr>"
    by (simp add: sort_values_def split: if_splits)
  with b show "df_rows res = srt score_of (tagged_rows ui dfs)" by simp
  from a show "dfs' = map (\<lambda>(name, df). (name, tag_frame name (map (mean_abs_diff ui) (df_rows df)) df)) dfs" .
qed

subsection \<open>Similarity ranker: inputs on which a run returns\<close>

lemma row_values_complete:
  "list_all (\<lambda>c. num_of c r \<noteq> None) cs \<Longrightarrow>
   row_values cs r = Inr (map (\<lambda>c. Num (attr r c)) cs)"
proof (induction cs)
  case Nil
  then show ?case by simp
next
  case (Cons c cs)
  from Cons.prems obtain x where "map_of r c = Some (Num x)"
    by (auto simp: num_of_def split: option.splits cell.splits)
  with Cons show ?case by (simp add: attr_def)
qed

lemma abs_diffs_numeric:
  "list_all (\<lambda>c. ui c \<noteq> Some None) cs \<Longrightarrow>
   abs_diffs (map (\<lambda>c. dict_get ui c (Some 0)) cs) (map (\<lambda>c. Num (f c)) cs)
     = Inr (map (\<lambda>c. \<bar>user_value ui c - f c\<bar>) cs)"
proof (induction cs)
  case Nil
  then show ?case by simp
next
  case (Cons c cs)
  from Cons.prems have "dict_get ui c (Some 0) = Some (user_value ui c)"
    by (cases "ui c") (auto simp: dict_get_def user_value_def)
  with Cons show ?case by simp
qed

lemma score_row_complete:
  assumes "numeric_user ui" and "numeric_row r"
  shows "score_row (user_vector ui) r = Inr (mean_abs_diff ui r)"
proof -
  have "length cols = 8" by (simp add: cols_def)
  with assms show ?thesis
    unfolding numeric_user_def numeric_row_def score_row_def user_vector_def
    by (simp add: row_values_complete abs_diffs_numeric np_mean_def mean_abs_diff_def)
qed

lemma score_rows_complete:
  "numeric_user ui \<Longrightarrow> list_all numeric_row rs \<Longrightarrow>
   score_rows (user_vector ui) rs = Inr (map (mean_abs_diff ui) rs)"
  by (induction rs) (simp_all add: score_row_complete)

lemma apply_rows_complete:
  assumes "numeric_user ui" and "list_all numeric_row rs"
  shows "apply_rows (user_vector ui) rs = Inr (map (mean_abs_diff ui) rs)"
proof -
  from assms(1) have "None \<notin> set (user_vector ui)"
    by (auto simp: numeric_user_def user_vector_def dict_get_def list_all_iff
          split: option.splits)
  with assms show ?thesis
    by (simp add: apply_rows_def score_rows_complete)
qed

lemma error_loop_complete:
  "numeric_user ui \<Longrightarrow> list_all complete_frame (map snd dfs) \<Longrightarrow>
   \<exists>res dfs'. error_loop ui dfs comb = (Inr res, dfs')"
proof (induction dfs arbitrary: comb)
  case Nil
  then show ?case by simp
next
  case (Cons p dfs)
  obtain name df where p: "p = (name, df)" by (cases p)
  from Cons.prems(2) p have cf: "complete_frame df" and rest: "list_all complete_frame (map snd dfs)"
    by simp_all
  from cf have m: "missing_cols df = []"
    by (auto simp: complete_frame_def missing_cols_def filter_empty_conv)
  from cf Cons.prems(1) have s: "apply_rows (user_vector ui) (df_rows df)
      = Inr (map (mean_abs_diff ui) (df_rows df))"
    by (simp add: complete_frame_def apply_rows_complete)
  from Cons.IH[OF Cons.prems(1) rest] obtain res dfs' where
    "error_loop ui dfs (concat_df comb (tag_frame name (map (mean_abs_diff ui) (df_rows df)) df))
       = (Inr res, dfs')" by blast
  with p m s show ?case by (simp add: Let_def)
qed

lemma calculate_average_error_returns:
  assumes "numeric_user ui" and "dfs \<noteq> []" and "list_all complete_frame (map snd dfs)"
  shows "\<exists>res dfs'. calculate_average_error srt dfs ui = (Inr res, dfs')"
proof -
  from error_loop_complete[OF assms(1,3)] obtain comb dfs' where
    loop: "error_loop ui dfs empty_df = (Inr comb, dfs')" by blast
  from error_loop_Inr[OF loop] assms(2) have
    rows: "df_rows comb = tagged_rows ui dfs" and col: "score_col \<in> set (df_columns comb)"
    by (simp_all add: empty_df_def)
  have "\<not> list_ex (\<lambda>r. num_of score_col r = None) (df_rows comb)"
    unfolding rows list_ex_iff using tagged_rows_scored by blast
  with col have "\<exists>res. sort_values srt comb = Inr res"
    by (simp add: sort_values_def)
  with loop show ?thesis
    by (auto simp: calculate_average_error_def)
qed

subsection \<open>Similarity ranker: the scenarios and the claims\<close>

lemma mad_A: "mean_abs_diff user_150 record_A = 2"
  by (simp add: mean_abs_diff_def cols_def user_value_def attr_def user_150_def record_A_def)
lemma mad_B: "mean_abs_diff user_150 record_B = 2"
  by (simp add: mean_abs_diff_def cols_def user_value_def attr_def user_150_def record_B_def)
lemma mad_C: "mean_abs_diff user_150 record_C = 0"
  by (simp add: mean_abs_diff_def cols_def user_value_def attr_def user_150_def record_C_def)

lemma score_row_A: "score_row (user_vector user_150) record_A = Inr 2"
  by (simp add: score_row_def user_vector_def cols_def dict_get_def user_150_def record_A_def np_mean_def)
lemma score_row_B: "score_row (user_vector user_150) record_B = Inr 2"
  by (simp add: score_row_def user_vector_def cols_def dict_get_def user_150_def record_B_def np_mean_def)
lemma score_row_C: "score_row (user_vector user_150) record_C = Inr 0"
  by (simp add: score_row_def user_vector_def cols_def dict_get_def user_150_def record_C_def np_mean_def)

lemma loop_AB:
  "error_loop user_150 dfs_AB empty_df =
    (Inr \<lparr>df_columns = cols @ [score_col, sheet_col],
          df_rows = [tag_row user_150 ''ogata_denki'' record_A,
                     tag_row user_150 ''ogata_kikai'' record_B,
                     tag_row user_150 ''ogata_kikai'' record_C]\<rparr>,
     [(''ogata_denki'', tag_frame ''ogata_denki'' [2] sheet_A),
      (''ogata_kikai'', tag_frame ''ogata_kikai'' [2, 0] sheet_B)])"
  by (simp add: dfs_AB_def sheet_A_def sheet_B_def missing_cols_def apply_rows_def
      score_row_A score_row_B score_row_C
      Let_def tag_frame_def set_column_def concat_df_def empty_df_def tag_row_def mad_A mad_B mad_C)
     (simp add: cols_def score_col_def sheet_col_def)

lemma score_of_tag_150:
  "score_of (tag_row user_150 n record_A) = 2"
  "score_of (tag_row user_150 n record_B) = 2"
  "score_of (tag_row user_150 n record_C) = 0"
  by (simp_all add: score_of_def score_of_tag_row mad_A mad_B mad_C)

lemma num_of_tag_150:
  "num_of score_col (tag_row user_150 n r) \<noteq> None"
  by (simp add: score_of_tag_row)

lemma ranked_AB_stable:
  "calculate_average_error sort_key dfs_AB user_150 =
    (Inr \<lparr>df_columns = cols @ [score_col, sheet_col],
          df_rows = [tag_row user_150 ''ogata_kikai'' record_C,
                     tag_row user_150 ''ogata_denki'' record_A,
                     tag_row user_150 ''ogata_kikai'' record_B]\<rparr>,
     [(''ogata_denki'', tag_frame ''ogata_denki'' [2] sheet_A),
      (''ogata_kikai'', tag_frame ''ogata_kikai'' [2, 0] sheet_B)])"
  by (simp add: calculate_average_error_def loop_AB sort_values_def num_of_tag_150
        sort_key_def score_of_tag_150)

lemma num_of_Cons:
  "num_of c ((k, v) # r) = (if k = c then (case v of Num x \<Rightarrow> Some x | Str t \<Rightarrow> None) else num_of c r)"
  by (simp add: num_of_def)

lemma numeric_records: "numeric_row record_A" "numeric_row record_B" "numeric_row record_C"
  by (simp_all add: numeric_row_def cols_def num_of_Cons record_A_def record_B_def record_C_def
        del: not_None_eq)

lemma ex_complete:
  "numeric_user user_150" "dfs_AB \<noteq> []" "list_all complete_frame (map snd dfs_AB)"
  by (simp_all add: numeric_user_def user_150_def dfs_AB_def complete_frame_def
        sheet_A_def sheet_B_def numeric_records)
     (simp add: cols_def)

lemma rowless_sheet_blank_field:
  "error_loop user_blank_count [(''ogata_denki'', \<lparr>df_columns = cols, df_rows = []\<rparr>)] empty_df
     = (Inl ValueError, [(''ogata_denki'', \<lparr>df_columns = cols, df_rows = []\<rparr>)])"
  by (simp add: missing_cols_def apply_rows_def user_vector_def cols_def dict_get_def
        user_blank_count_def user_150_def)

text \<open>
  C1 at a form whose trace count was left empty. The session holds \<open>None\<close> under the key
  (it is not absent), so \<open>user_input.get(col, 0)\<close> returns \<open>None\<close>, not 0, and the
  subtraction of line 43 raises TypeError on the first record: no score is computed, where
  the claim gives the score 2.5 (0 substituted for the missing value). The default 0 of
  line 42 only applies to a key that is absent from the dictionary, as the last conjunct
  shows.
\<close>

theorem ranking_blank_field_raises:
  "user_blank_count ''haisen_honsuu'' = Some None
   \<and> mean_abs_diff user_blank_count record_A = 2.5
   \<and> fst (calculate_average_error srt dfs_AB user_blank_count) = Inl TypeError
   \<and> fst (calculate_average_error sort_key [(''ogata_denki'', sheet_A)]
             (user_blank_count(''haisen_honsuu'' := None)))
       = Inr \<lparr>df_columns = cols @ [score_col, sheet_col],
              df_rows = [AList.update sheet_col (Str ''ogata_denki'')
                           (AList.update score_col (Num 2.5) record_A)]\<rparr>"
proof -
  have a: "user_blank_count ''haisen_honsuu'' = Some None"
    by (simp add: user_blank_count_def)
  have b: "mean_abs_diff user_blank_count record_A = 2.5"
    by (simp add: mean_abs_diff_def cols_def user_value_def attr_def user_blank_count_def
          user_150_def record_A_def)
  have "score_row (user_vector user_blank_count) record_A = Inl TypeError"
    by (simp add: score_row_def user_vector_def cols_def dict_get_def user_blank_count_def
          user_150_def record_A_def)
  then have c: "fst (calculate_average_error srt dfs_AB user_blank_count) = Inl TypeError"
    by (simp add: calculate_average_error_def dfs_AB_def sheet_A_def missing_cols_def
          apply_rows_def)
  have "score_row (user_vector (user_blank_count(''haisen_honsuu'' := None))) record_A = Inr 2.5"
    by (simp add: score_row_def user_vector_def cols_def dict_get_def user_blank_count_def
          user_150_def record_A_def np_mean_def)
  then have "error_loop (user_blank_count(''haisen_honsuu'' := None))
               [(''ogata_denki'', sheet_A)] empty_df
             = (Inr \<lparr>df_columns = cols @ [score_col, sheet_col],
                     df_rows = [AList.update sheet_col (Str ''ogata_denki'')
                           (AList.update score_col (Num 2.5) record_A)]\<rparr>,
                [(''ogata_denki'', tag_frame ''ogata_denki'' [2.5] sheet_A)])"
    by (simp add: sheet_A_def missing_cols_def apply_rows_def Let_def tag_frame_def set_column_def
          concat_df_def empty_df_def)
       (simp add: cols_def score_col_def sheet_col_def)
  then have d: "fst (calculate_average_error sort_key [(''ogata_denki'', sheet_A)]
             (user_blank_count(''haisen_honsuu'' := None)))
       = Inr \<lparr>df_columns = cols @ [score_col, sheet_col],
              df_rows = [AList.update sheet_col (Str ''ogata_denki'')
                           (AList.update score_col (Num 2.5) record_A)]\<rparr>"
    by (simp add: calculate_average_error_def sort_values_def num_of_def update_conv'
          score_col_def sheet_col_def)
  from a b c d show ?thesis by simp
qed

lemma frames_if_returns:
  assumes "calculate_average_error srt dfs user_input = (Inr similar_data, dfs')"
  shows "map fst dfs' = map fst dfs
    \<and> (\<forall>i < length dfs.
          score_col \<in> set (df_columns (snd (dfs' ! i)))
        \<and> sheet_col \<in> set (df_columns (snd (dfs' ! i)))
        \<and> df_rows (snd (dfs' ! i))
            = map (tag_row user_input (fst (dfs ! i))) (df_rows (snd (dfs ! i)))
        \<and> (score_col \<notin> set (df_columns (snd (dfs ! i)))
             \<longrightarrow> snd (dfs' ! i) \<noteq> snd (dfs ! i))
        \<and> (sheet_col \<notin> set (df_columns (snd (dfs ! i)))
             \<longrightarrow> snd (dfs' ! i) \<noteq> snd (dfs ! i)))"
proof -
  let ?f = "\<lambda>(name, df). (name, tag_frame name (map (mean_abs_diff user_input) (df_rows df)) df)"
  from calculate_average_error_Inr(1)[OF assms] have d: "dfs' = map ?f dfs" .
  then have names: "map fst dfs' = map fst dfs"
    by (simp add: comp_def split_def)
  have each: "score_col \<in> set (df_columns (snd (dfs' ! i)))
        \<and> sheet_col \<in> set (df_columns (snd (dfs' ! i)))
        \<and> df_rows (snd (dfs' ! i))
            = map (tag_row user_input (fst (dfs ! i))) (df_rows (snd (dfs ! i)))
        \<and> (score_col \<notin> set (df_columns (snd (dfs ! i)))
             \<longrightarrow> snd (dfs' ! i) \<noteq> snd (dfs ! i))
        \<and> (sheet_col \<notin> set (df_columns (snd (dfs ! i)))
             \<longrightarrow> snd (dfs' ! i) \<noteq> snd (dfs ! i))" if "i < length dfs" for i
  proof -
    obtain name df where p: "dfs ! i = (name, df)" by (cases "dfs ! i")
    with d that have q: "snd (dfs' ! i)
        = tag_frame name (map (mean_abs_diff user_input) (df_rows df)) df"
      by simp
    from tag_frame_columns[of name "map (mean_abs_diff user_input) (df_rows df)" df]
    have c: "score_col \<in> set (df_columns (snd (dfs' ! i)))"
            "sheet_col \<in> set (df_columns (snd (dfs' ! i)))"
      by (simp_all add: q)
    from c have "score_col \<notin> set (df_columns df) \<longrightarrow> snd (dfs' ! i) \<noteq> df"
      and "sheet_col \<notin> set (df_columns df) \<longrightarrow> snd (dfs' ! i) \<noteq> df"
      by auto
    with c p q show ?thesis
      by (simp add: tag_frame_rows)
  qed
  from names each show ?thesis by blast
qed

text \<open>
  C10. On sheets of numeric records and numeric user values the ranker returns, and it has
  changed every frame of the dictionary it was given: each frame now has the column of the
  error means and the column of the sheet name, every row of it holds its score and the
  name of its sheet, and a frame that did not have one of the two columns before is no
  longer the frame that was passed in.
\<close>

theorem ranking_mutates_frames:
  assumes "numeric_user user_input" and "dfs \<noteq> []"
    and "list_all complete_frame (map snd dfs)"
  shows "\<exists>similar_data dfs'.
      calculate_average_error srt dfs user_input = (Inr similar_data, dfs')
    \<and> map fst dfs' = map fst dfs
    \<and> (\<forall>i < length dfs.
          score_col \<in> set (df_columns (snd (dfs' ! i)))
        \<and> sheet_col \<in> set (df_columns (snd (dfs' ! i)))
        \<and> df_rows (snd (dfs' ! i))
            = map (tag_row user_input (fst (dfs ! i))) (df_rows (snd (dfs ! i)))
        \<and> (score_col \<notin> set (df_columns (snd (dfs ! i)))
             \<longrightarrow> snd (dfs' ! i) \<noteq> snd (dfs ! i))
        \<and> (sheet_col \<notin> set (df_columns (snd (dfs ! i)))
             \<longrightarrow> snd (dfs' ! i) \<noteq> snd (dfs ! i)))"
proof -
  from calculate_average_error_returns[OF assms] obtain similar_data dfs' where
    r: "calculate_average_error srt dfs user_input = (Inr similar_data, dfs')" by blast
  from frames_if_returns[OF r] r show ?thesis by blast
qed

text \<open>
  The hypotheses of C10's theorem hold at the second sheet of the scenario.
\<close>

theorem ranking_mutates_frames_witness:
  "numeric_user user_150 \<and> dfs_AB \<noteq> [] \<and> list_all complete_frame (map snd dfs_AB)
   \<and> snd (calculate_average_error sort_key dfs_AB user_150) =
       [(''ogata_denki'', tag_frame ''ogata_denki'' [2] sheet_A),
        (''ogata_kikai'', tag_frame ''ogata_kikai'' [2, 0] sheet_B)]
   \<and> (1::nat) < length dfs_AB
   \<and> score_col \<notin> set (df_columns (snd (dfs_AB ! 1)))
   \<and> tag_frame ''ogata_kikai'' [2, 0] sheet_B \<noteq> sheet_B
   \<and> df_rows (tag_frame ''ogata_kikai'' [2, 0] sheet_B)
       = [tag_row user_150 ''ogata_kikai'' record_B, tag_row user_150 ''ogata_kikai'' record_C]
   \<and> score_col \<in> set (df_columns (tag_frame ''ogata_kikai'' [2, 0] sheet_B))
   \<and> sheet_col \<in> set (df_columns (tag_frame ''ogata_kikai'' [2, 0] sheet_B))"
proof -
  from ranking_mutates_frames[OF ex_complete, of sort_key] obtain similar_data dfs' where
    r: "calculate_average_error sort_key dfs_AB user_150 = (Inr similar_data, dfs')"
    and T: "\<forall>i < length dfs_AB.
          score_col \<in> set (df_columns (snd (dfs' ! i)))
        \<and> sheet_col \<in> set (df_columns (snd (dfs' ! i)))
        \<and> df_rows (snd (dfs' ! i))
            = map (tag_row user_150 (fst (dfs_AB ! i))) (df_rows (snd (dfs_AB ! i)))
        \<and> (score_col \<notin> set (df_columns (snd (dfs_AB ! i)))
             \<longrightarrow> snd (dfs' ! i) \<noteq> snd (dfs_AB ! i))
        \<and> (sheet_col \<notin> set (df_columns (snd (dfs_AB ! i)))
             \<longrightarrow> snd (dfs' ! i) \<noteq> snd (dfs_AB ! i))"
    by blast
  from r ranked_AB_stable have d: "dfs' =
       [(''ogata_denki'', tag_frame ''ogata_denki'' [2] sheet_A),
        (''ogata_kikai'', tag_frame ''ogata_kikai'' [2, 0] sheet_B)]" by auto
  have l: "(1::nat) < length dfs_AB" by (simp add: dfs_AB_def)
  have n: "score_col \<notin> set (df_columns (snd (dfs_AB ! 1)))"
    by (simp add: dfs_AB_def sheet_B_def cols_def score_col_def)
  have s: "snd (dfs_AB ! 1) = sheet_B" "fst (dfs_AB ! 1) = ''ogata_kikai''"
    by (simp_all add: dfs_AB_def)
  from T l have "score_col \<in> set (df_columns (snd (dfs' ! 1)))
        \<and> sheet_col \<in> set (df_columns (snd (dfs' ! 1)))
        \<and> df_rows (snd (dfs' ! 1))
            = map (tag_row user_150 (fst (dfs_AB ! 1))) (df_rows (snd (dfs_AB ! 1)))
        \<and> (score_col \<notin> set (df_columns (snd (dfs_AB ! 1)))
             \<longrightarrow> snd (dfs' ! 1) \<noteq> snd (dfs_AB ! 1))"
    by blast
  with n s d have "score_col \<in> set (df_columns (tag_frame ''ogata_kikai'' [2, 0] sheet_B))
        \<and> sheet_col \<in> set (df_columns (tag_frame ''ogata_kikai'' [2, 0] sheet_B))
        \<and> df_rows (tag_frame ''ogata_kikai'' [2, 0] sheet_B)
            = map (tag_row user_150 ''ogata_kikai'') (df_rows sheet_B)
        \<and> tag_frame ''ogata_kikai'' [2, 0] sheet_B \<noteq> sheet_B"
    by simp
  with n s l d r ex_complete show ?thesis
    by (simp add: sheet_B_def)
qed

subsection \<open>Top-N extractor\<close>

lemma unique_from_set: "set (unique_from seen xs) = set xs - set seen"
  by (induction seen xs rule: unique_from.induct) auto

lemma unique_from_distinct: "distinct (unique_from seen xs)"
  by (induction seen xs rule: unique_from.induct) (auto simp: unique_from_set)

lemma unique_set: "set (unique xs) = set xs"
  by (simp add: unique_def unique_from_set)

lemma unique_distinct: "distinct (unique xs)"
  by (simp add: unique_def unique_from_distinct)

lemma cells_of_Inr:
  "cells_of col rs = Inr cs \<Longrightarrow> map (\<lambda>r. map_of r col) rs = map Some cs"
  by (induction rs arbitrary: cs) (auto split: option.splits sum.splits)

lemma head_nonneg: "0 \<le> n \<Longrightarrow> head n xs = take (nat n) xs"
  by (simp add: head_def)

lemma sorted_map_take: "sorted (map f xs) \<Longrightarrow> sorted (map f (take k xs))"
  by (simp add: take_map[symmetric] sorted_wrt_take)

lemma sorted_map_filter: "sorted (map f xs) \<Longrightarrow> sorted (map f (filter P xs))"
  by (induction xs) auto

lemma get_top_similar_data_returns:
  assumes "sheet_col \<in> set (df_columns sd)"
    and "list_all (\<lambda>r. map_of r sheet_col \<noteq> None) (df_rows sd)"
  shows "\<exists>top_data. get_top_similar_data sd n = Inr top_data"
proof -
  have "list_all (\<lambda>r. map_of r col \<noteq> None) rs \<Longrightarrow> \<exists>cs. cells_of col rs = Inr cs" for col rs
    by (induction rs) auto
  from this[OF assms(2)] assms(1) show ?thesis
    by (auto simp: get_top_similar_data_def column_values_def)
qed

lemma top_n_if_returns:
  assumes "get_top_similar_data similar_data n = Inr top_data" and "0 \<le> n"
  shows "distinct (map fst top_data)
    \<and> set (map fst top_data) = {name. rows_of_sheet name similar_data \<noteq> []}
    \<and> (\<forall>name sheet_data. (name, sheet_data) \<in> set top_data \<longrightarrow>
          length (df_rows sheet_data) \<le> nat n
        \<and> df_rows sheet_data = take (nat n) (rows_of_sheet name similar_data)
        \<and> (length (rows_of_sheet name similar_data) \<le> nat n \<longrightarrow>
              df_rows sheet_data = rows_of_sheet name similar_data)
        \<and> (sorted (map score_of (df_rows similar_data)) \<longrightarrow>
              sorted (map score_of (df_rows sheet_data))))"
proof -
  from assms(1) obtain names where
    names: "column_values sheet_col similar_data = Inr names"
    and top: "top_data = map (\<lambda>sheet_name.
                  (sheet_name,
                   (select_sheet sheet_name similar_data)
                     \<lparr>df_rows := head n (df_rows (select_sheet sheet_name similar_data))\<rparr>))
                (unique names)"
    by (auto simp: get_top_similar_data_def split: sum.splits)
  from names have "cells_of sheet_col (df_rows similar_data) = Inr names"
    by (simp add: column_values_def split: if_splits)
  then have cells: "map (\<lambda>r. map_of r sheet_col) (df_rows similar_data) = map Some names"
    by (rule cells_of_Inr)
  have keys: "map fst top_data = unique names"
    unfolding top by (simp add: comp_def)
  have "set names = {name. rows_of_sheet name similar_data \<noteq> []}"
  proof -
    have "Some ` set names = (\<lambda>r. map_of r sheet_col) ` set (df_rows similar_data)"
      using cells by (metis set_map)
    then have "name \<in> set names \<longleftrightarrow> (\<exists>r \<in> set (df_rows similar_data). map_of r sheet_col = Some name)"
      for name
      by (metis (mono_tags, lifting) image_iff option.inject)
    then show ?thesis
      by (simp add: rows_of_sheet_def filter_empty_conv set_eq_iff)
  qed
  then have dom: "set (map fst top_data) = {name. rows_of_sheet name similar_data \<noteq> []}"
    by (simp add: keys unique_set)
  have each: "length (df_rows sheet_data) \<le> nat n
        \<and> df_rows sheet_data = take (nat n) (rows_of_sheet name similar_data)
        \<and> (length (rows_of_sheet name similar_data) \<le> nat n \<longrightarrow>
              df_rows sheet_data = rows_of_sheet name similar_data)
        \<and> (sorted (map score_of (df_rows similar_data)) \<longrightarrow>
              sorted (map score_of (df_rows sheet_data)))"
    if "(name, sheet_data) \<in> set top_data" for name sheet_data
  proof -
    from that have "df_rows sheet_data = head n (df_rows (select_sheet name similar_data))"
      unfolding top by auto
    then have eq: "df_rows sheet_data = take (nat n) (rows_of_sheet name similar_data)"
      using assms(2) by (simp add: head_nonneg select_sheet_def rows_of_sheet_def)
    have "sorted (map score_of (take (nat n) (rows_of_sheet name similar_data)))"
      if "sorted (map score_of (df_rows similar_data))"
      unfolding rows_of_sheet_def using that by (intro sorted_map_take sorted_map_filter)
    with eq show ?thesis by simp
  qed
  have "distinct (map fst top_data)"
    by (simp add: keys unique_distinct)
  with dom each show ?thesis
    by blast
qed

text \<open>
  C5. On a ranked set (a table with the column of the sheet name and a name in every row)
  and for a count \<open>n \<ge> 0\<close>, the extractor returns, with one entry per distinct sheet
  name of the ranked set; each entry holds the first \<open>n\<close> rows of that sheet in the order
  of the ranked set (so at most \<open>n\<close> rows, all of them when the sheet has no more than
  \<open>n\<close>), and stays in ascending order of the score when the ranked set is.
\<close>

theorem get_top_similar_data_top_n:
  assumes "sheet_col \<in> set (df_columns similar_data)"
    and "list_all (\<lambda>r. map_of r sheet_col \<noteq> None) (df_rows similar_data)"
    and "0 \<le> n"
  shows "\<exists>top_data. get_top_similar_data similar_data n = Inr top_data
    \<and> distinct (map fst top_data)
    \<and> set (map fst top_data) = {name. rows_of_sheet name similar_data \<noteq> []}
    \<and> (\<forall>name sheet_data. (name, sheet_data) \<in> set top_data \<longrightarrow>
          length (df_rows sheet_data) \<le> nat n
        \<and> df_rows sheet_data = take (nat n) (rows_of_sheet name similar_data)
        \<and> (length (rows_of_sheet name similar_data) \<le> nat n \<longrightarrow>
              df_rows sheet_data = rows_of_sheet name similar_data)
        \<and> (sorted (map score_of (df_rows similar_data)) \<longrightarrow>
              sorted (map score_of (df_rows sheet_data))))"
proof -
  from get_top_similar_data_returns[OF assms(1,2)] obtain top_data where
    r: "get_top_similar_data similar_data n = Inr top_data" by blast
  from top_n_if_returns[OF r assms(3)] r show ?thesis by blast
qed

lemma sheet_tag_eq:
  "(map_of (tag_row ui a r) sheet_col = Some (Str b)) = (a = b)"
  by (simp add: sheet_of_tag_row)

lemma top3_ranked_AB:
  "get_top_similar_data ranked_AB 3 =
     Inr [(Str ''ogata_kikai'',
           \<lparr>df_columns = cols @ [score_col, sheet_col],
            df_rows = [tag_row user_150 ''ogata_kikai'' record_C,
                       tag_row user_150 ''ogata_kikai'' record_B]\<rparr>),
          (Str ''ogata_denki'',
           \<lparr>df_columns = cols @ [score_col, sheet_col],
            df_rows = [tag_row user_150 ''ogata_denki'' record_A]\<rparr>)]"
  by (simp add: get_top_similar_data_def column_values_def ranked_AB_def sheet_of_tag_row
        unique_def select_sheet_def head_def sheet_tag_eq)

text \<open>
  The hypotheses of C5's theorem hold for Top-3 of the ranked scenario, where the second
  sheet has only 2 rows: exactly those 2 rows are returned.
\<close>

theorem get_top_similar_data_top_n_witness:
  "sheet_col \<in> set (df_columns ranked_AB)
   \<and> list_all (\<lambda>r. map_of r sheet_col \<noteq> None) (df_rows ranked_AB)
   \<and> (0::int) \<le> 3
   \<and> get_top_similar_data ranked_AB 3 =
     Inr [(Str ''ogata_kikai'',
           \<lparr>df_columns = cols @ [score_col, sheet_col],
            df_rows = [tag_row user_150 ''ogata_kikai'' record_C,
                       tag_row user_150 ''ogata_kikai'' record_B]\<rparr>),
          (Str ''ogata_denki'',
           \<lparr>df_columns = cols @ [score_col, sheet_col],
            df_rows = [tag_row user_150 ''ogata_denki'' record_A]\<rparr>)]
   \<and> rows_of_sheet (Str ''ogata_kikai'') ranked_AB
        = [tag_row user_150 ''ogata_kikai'' record_C, tag_row user_150 ''ogata_kikai'' record_B]
   \<and> length (rows_of_sheet (Str ''ogata_kikai'') ranked_AB) \<le> nat 3
   \<and> sorted (map score_of (df_rows ranked_AB))
   \<and> sorted (map score_of [tag_row user_150 ''ogata_kikai'' record_C,
                             tag_row user_150 ''ogata_kikai'' record_B])"
proof -
  have c: "sheet_col \<in> set (df_columns ranked_AB)"
    by (simp add: ranked_AB_def)
  have a: "list_all (\<lambda>r. map_of r sheet_col \<noteq> None) (df_rows ranked_AB)"
    by (simp add: ranked_AB_def sheet_of_tag_row)
  have n: "(0::int) \<le> 3" by simp
  from get_top_similar_data_top_n[OF c a n] obtain top_data where
    g: "get_top_similar_data ranked_AB 3 = Inr top_data"
    and T: "\<forall>name sheet_data. (name, sheet_data) \<in> set top_data \<longrightarrow>
          length (df_rows sheet_data) \<le> nat 3
        \<and> df_rows sheet_data = take (nat 3) (rows_of_sheet name ranked_AB)
        \<and> (length (rows_of_sheet name ranked_AB) \<le> nat 3 \<longrightarrow>
              df_rows sheet_data = rows_of_sheet name ranked_AB)
        \<and> (sorted (map score_of (df_rows ranked_AB)) \<longrightarrow>
              sorted (map score_of (df_rows sheet_data)))"
    by blast
  from g top3_ranked_AB have top: "top_data =
        [(Str ''ogata_kikai'',
           \<lparr>df_columns = cols @ [score_col, sheet_col],
            df_rows = [tag_row user_150 ''ogata_kikai'' record_C,
                       tag_row user_150 ''ogata_kikai'' record_B]\<rparr>),
          (Str ''ogata_denki'',
           \<lparr>df_columns = cols @ [score_col, sheet_col],
            df_rows = [tag_row user_150 ''ogata_denki'' record_A]\<rparr>)]" by auto
  have r: "rows_of_sheet (Str ''ogata_kikai'') ranked_AB
        = [tag_row user_150 ''ogata_kikai'' record_C, tag_row user_150 ''ogata_kikai'' record_B]"
    by (simp add: rows_of_sheet_def ranked_AB_def sheet_tag_eq)
  have s: "sorted (map score_of (df_rows ranked_AB))"
    by (simp add: ranked_AB_def score_of_tag_150)
  from T s top have "sorted (map score_of [tag_row user_150 ''ogata_kikai'' record_C,
                             tag_row user_150 ''ogata_kikai'' record_B])"
    by fastforce
  with c a top3_ranked_AB r s show ?thesis by simp
qed

subsection \<open>Search: a sheet that cannot be read\<close>

lemma load_sheets_fails:
  "\<exists>name \<in> set names. isl (rd name) \<Longrightarrow>
   \<exists>e. load_sheets rd names = Inl e \<and> (\<exists>name \<in> set names. rd name = Inl e)"
proof (induction names)
  case Nil
  then show ?case by simp
next
  case (Cons n ns)
  show ?case
  proof (cases "rd n")
    case (Inl e)
    then show ?thesis by auto
  next
    case (Inr df)
    with Cons.prems have "\<exists>name \<in> set ns. isl (rd name)" by auto
    from Cons.IH[OF this] obtain e where "load_sheets rd ns = Inl e"
      "\<exists>name \<in> set ns. rd name = Inl e" by blast
    with Inr show ?thesis by auto
  qed
qed

text \<open>
  C6. When one of the sheets selected for the validated length and width cannot be read,
  the search shows exactly one event, the error of that sheet (the first that fails), and
  nothing else: no ranked table and no top table, also not from a sheet that was read
  before; the session is left as it was.
\<close>

theorem search_fails_whole:
  assumes "st_inputs st ''kiban_nagasa_mm'' = Some (Some l)"
    and "st_inputs st ''kiban_haba_mm'' = Some (Some w)"
    and "\<exists>sheet_name \<in> set (get_sheet_names l w). isl (lib_read_excel lib sheet_name)"
  shows "\<exists>e. search_block lib st wd = ([SearchError e], st, Finished)
           \<and> (\<exists>sheet_name \<in> set (get_sheet_names l w). lib_read_excel lib sheet_name = Inl e)"
proof -
  from load_sheets_fails[OF assms(3)] obtain e where
    e: "load_sheets (lib_read_excel lib) (get_sheet_names l w) = Inl e"
    and src: "\<exists>sheet_name \<in> set (get_sheet_names l w). lib_read_excel lib sheet_name = Inl e"
    by blast
  from assms(1,2) e have "ranked lib st = Inl e"
    by (simp add: ranked_def subscript_def call_get_sheet_names_def)
  then have "search_block lib st wd = ([SearchError e], st, Finished)"
    by (simp add: search_block_def)
  with src show ?thesis by blast
qed

lemma form_state_inputs:
  "st_inputs form_state ''kiban_nagasa_mm'' = Some (Some 150)"
  "st_inputs form_state ''kiban_haba_mm'' = Some (Some 60)"
  by (simp_all add: form_state_def primary_150_def)

text \<open>
  The hypotheses of C6's theorem hold for the workbook that has the first sheet of the
  large products and lacks the second: the first sheet is read, and still nothing of it
  is shown.
\<close>

theorem search_fails_whole_witness:
  "st_inputs form_state ''kiban_nagasa_mm'' = Some (Some 150)
   \<and> st_inputs form_state ''kiban_haba_mm'' = Some (Some 60)
   \<and> get_sheet_names 150 60 = [''ogata_denki'', ''ogata_kikai'']
   \<and> lib_read_excel second_sheet_missing ''ogata_denki'' = Inr sheet_A
   \<and> lib_read_excel second_sheet_missing ''ogata_kikai'' = Inl (DataSourceError ''ogata_kikai'')
   \<and> search_block second_sheet_missing form_state no_widgets
       = ([SearchError (DataSourceError ''ogata_kikai'')], form_state, Finished)"
proof -
  have g: "get_sheet_names 150 60 = [''ogata_denki'', ''ogata_kikai'']"
    by (simp add: get_sheet_names_def large_pair_def)
  have r: "lib_read_excel second_sheet_missing ''ogata_denki'' = Inr sheet_A"
    "lib_read_excel second_sheet_missing ''ogata_kikai'' = Inl (DataSourceError ''ogata_kikai'')"
    by (simp_all add: second_sheet_missing_def)
  have h: "\<exists>sheet_name \<in> set (get_sheet_names 150 60).
             isl (lib_read_excel second_sheet_missing sheet_name)"
    by (simp add: g r)
  from search_fails_whole[OF form_state_inputs h, of no_widgets] obtain e where
    e: "search_block second_sheet_missing form_state no_widgets = ([SearchError e], form_state, Finished)"
    and "\<exists>sheet_name \<in> set (get_sheet_names 150 60).
            lib_read_excel second_sheet_missing sheet_name = Inl e"
    by blast
  then have "e = DataSourceError ''ogata_kikai''"
    by (simp add: g r)
  with e g r form_state_inputs show ?thesis by simp
qed

subsection \<open>Chat\<close>

lemma chat_request_ignores_messages:
  "chat_request lib (st\<lparr>st_messages := ms\<rparr>) user_input = chat_request lib st user_input"
  by (simp add: chat_request_def split: option.splits)

text \<open>
  C7. When the chat service refuses the request, or fails in the middle of the stream
  after some chunks, the run ends with the error shown as its last event, and the
  transcript is the one before the submission followed by the question of the user
  (appended at line 153, before the attempt): the text accumulated from the chunks is
  only in a local variable and in the placeholder, and no assistant message is stored.
\<close>

theorem chat_failure_keeps_transcript:
  assumes "\<not> back_button w" and "chat_input w \<noteq> []" and "openai_api_key w \<noteq> []"
    and "chat_request lib st (chat_input w) = Inr request"
    and "lib_chat lib (openai_api_key w) request = Inl e
         \<or> (\<exists>chunks. lib_chat lib (openai_api_key w) request = Inr (chunks, Some e))"
  shows "\<exists>shown. chat_block lib st w =
           (shown @ [ChatFailed e],
            st\<lparr>st_messages := st_messages st @ [\<lparr>role = ''user'', content = chat_input w\<rparr>]\<rparr>,
            Finished)"
proof -
  let ?st1 = "st\<lparr>st_messages := st_messages st @ [\<lparr>role = ''user'', content = chat_input w\<rparr>]\<rparr>"
  from assms(4) have req: "chat_request lib ?st1 (chat_input w) = Inr request"
    by (simp add: chat_request_ignores_messages)
  from assms(5) have "\<exists>shown'. chat_attempt lib ?st1 w = (shown', Inl e)"
  proof
    assume "lib_chat lib (openai_api_key w) request = Inl e"
    with req show ?thesis by (simp add: chat_attempt_def)
  next
    assume "\<exists>chunks. lib_chat lib (openai_api_key w) request = Inr (chunks, Some e)"
    then obtain chunks where "lib_chat lib (openai_api_key w) request = Inr (chunks, Some e)" ..
    with req show ?thesis by (simp add: chat_attempt_def split: prod.splits)
  qed
  then obtain shown' where "chat_attempt lib ?st1 w = (shown', Inl e)" ..
  with assms(1-3) have "chat_block lib st w =
      ((map ChatHistory (st_messages st) @ [UserBubble (chat_input w)] @ shown') @ [ChatFailed e],
       ?st1, Finished)"
    by (simp add: chat_block_def Let_def)
  then show ?thesis by blast
qed

lemma chat_request_q2:
  "chat_request second_sheet_missing chat_state ''q2'' = Inr request_q2"
  by (simp add: chat_request_def chat_state_def second_sheet_missing_def request_q2_def)

text \<open>
  The hypotheses of C7's theorem hold for a stream that delivers "Hel", an empty chunk and
  "lo" and then loses the connection: "Hello" was shown and is not in the transcript.
\<close>

theorem chat_failure_keeps_transcript_witness:
  "\<not> back_button ask_q2 \<and> chat_input ask_q2 = ''q2'' \<and> openai_api_key ask_q2 = ''key''
   \<and> chat_request second_sheet_missing chat_state ''q2'' = Inr request_q2
   \<and> lib_chat second_sheet_missing ''key'' request_q2
        = Inr ([Some ''Hel'', None, Some ''lo''], Some (ChatError ''connection lost''))
   \<and> chat_block second_sheet_missing chat_state ask_q2 =
       ([ChatHistory \<lparr>role = ''user'', content = ''q1''\<rparr>,
         ChatHistory \<lparr>role = ''assistant'', content = ''a1''\<rparr>,
         UserBubble ''q2'', Partial ''Hel'', Partial ''Hello'',
         ChatFailed (ChatError ''connection lost'')],
        chat_state\<lparr>st_messages := [\<lparr>role = ''user'', content = ''q1''\<rparr>,
                                     \<lparr>role = ''assistant'', content = ''a1''\<rparr>,
                                     \<lparr>role = ''user'', content = ''q2''\<rparr>]\<rparr>,
        Finished)"
proof -
  have w: "\<not> back_button ask_q2" "chat_input ask_q2 \<noteq> []" "openai_api_key ask_q2 \<noteq> []"
    "chat_input ask_q2 = ''q2''" "openai_api_key ask_q2 = ''key''"
    by (simp_all add: ask_q2_def no_widgets_def)
  have c: "lib_chat second_sheet_missing ''key'' request_q2
        = Inr ([Some ''Hel'', None, Some ''lo''], Some (ChatError ''connection lost''))"
    by (simp add: second_sheet_missing_def)
  have r: "chat_request second_sheet_missing chat_state (chat_input ask_q2) = Inr request_q2"
    by (simp add: w chat_request_q2)
  have f: "lib_chat second_sheet_missing (openai_api_key ask_q2) request_q2
             = Inl (ChatError ''connection lost'')
         \<or> (\<exists>chunks. lib_chat second_sheet_missing (openai_api_key ask_q2) request_q2
               = Inr (chunks, Some (ChatError ''connection lost'')))"
    by (simp add: w c)
  from chat_failure_keeps_transcript[OF w(1-3) r f] obtain shown where
    s: "chat_block second_sheet_missing chat_state ask_q2 =
         (shown @ [ChatFailed (ChatError ''connection lost'')],
          chat_state\<lparr>st_messages := st_messages chat_state
                          @ [\<lparr>role = ''user'', content = chat_input ask_q2\<rparr>]\<rparr>,
          Finished)" by blast
  have m: "st_messages chat_state = [\<lparr>role = ''user'', content = ''q1''\<rparr>,
                                     \<lparr>role = ''assistant'', content = ''a1''\<rparr>]"
    by (simp add: chat_state_def)
  have b: "fst (chat_block second_sheet_missing chat_state ask_q2) =
       [ChatHistory \<lparr>role = ''user'', content = ''q1''\<rparr>,
         ChatHistory \<lparr>role = ''assistant'', content = ''a1''\<rparr>,
         UserBubble ''q2'', Partial ''Hel'', Partial ''Hello'',
         ChatFailed (ChatError ''connection lost'')]"
    by (simp add: chat_block_def w Let_def m chat_attempt_def chat_request_ignores_messages
          chat_request_q2 c)
  from s b have "chat_block second_sheet_missing chat_state ask_q2 =
       ([ChatHistory \<lparr>role = ''user'', content = ''q1''\<rparr>,
         ChatHistory \<lparr>role = ''assistant'', content = ''a1''\<rparr>,
         UserBubble ''q2'', Partial ''Hel'', Partial ''Hello'',
         ChatFailed (ChatError ''connection lost'')],
        chat_state\<lparr>st_messages := [\<lparr>role = ''user'', content = ''q1''\<rparr>,
                                     \<lparr>role = ''assistant'', content = ''a1''\<rparr>,
                                     \<lparr>role = ''user'', content = ''q2''\<rparr>]\<rparr>,
        Finished)"
    by (simp add: m w)
  with w c chat_request_q2 show ?thesis by simp
qed

text \<open>
  C8, as the code has it. The list handed to the chat service has exactly two messages:
  a system message whose text holds the JSON of the full design input and the context
  block between fixed texts, and the new user message. The stored transcript is not part
  of it: the request is the same whatever the transcript is.
\<close>

theorem chat_request_two_messages:
  assumes "st_full_inputs_for_chat st = Some full_inputs"
    and "st_context_data st = Some context"
  shows "chat_request lib st user_input =
           Inr [\<lparr>role = ''system'',
                 content = prompt_intro @ lib_json_dumps lib full_inputs @ prompt_similar
                           @ context @ prompt_outro\<rparr>,
                \<lparr>role = ''user'', content = user_input\<rparr>]
       \<and> (\<forall>transcript. chat_request lib (st\<lparr>st_messages := transcript\<rparr>) user_input
                          = chat_request lib st user_input)"
  using assms by (simp add: chat_request_def system_content_def split: option.splits)

text \<open>
  The hypotheses of C8's theorem hold in the chat session of the scenario.
\<close>

theorem chat_request_two_messages_witness:
  "st_full_inputs_for_chat chat_state = Some user_150
   \<and> st_context_data chat_state = Some ''context''
   \<and> chat_request second_sheet_missing chat_state ''q2'' =
           Inr [\<lparr>role = ''system'',
                 content = prompt_intro @ ''json'' @ prompt_similar @ ''context'' @ prompt_outro\<rparr>,
                \<lparr>role = ''user'', content = ''q2''\<rparr>]"
proof -
  have a: "st_full_inputs_for_chat chat_state = Some user_150"
    and b: "st_context_data chat_state = Some ''context''"
    by (simp_all add: chat_state_def)
  from chat_request_two_messages[OF a b, of second_sheet_missing "''q2''"] a b
  show ?thesis by (simp add: second_sheet_missing_def)
qed

text \<open>
  C8 as stated fails: with a transcript of one question and one answer, the request for
  the next question has two messages and holds neither of the two earlier ones.
\<close>

theorem chat_request_transcript_counterexample:
  "st_messages chat_state = [\<lparr>role = ''user'', content = ''q1''\<rparr>,
                              \<lparr>role = ''assistant'', content = ''a1''\<rparr>]
   \<and> chat_request second_sheet_missing chat_state ''q2'' = Inr request_q2
   \<and> length request_q2 = 2
   \<and> \<lparr>role = ''user'', content = ''q1''\<rparr> \<notin> set request_q2
   \<and> \<lparr>role = ''assistant'', content = ''a1''\<rparr> \<notin> set request_q2"
  by (simp add: chat_request_q2) (simp add: chat_state_def request_q2_def)

subsection \<open>Return to the form\<close>

lemma fill_fields_blank:
  "(\<And>key. entries key = Blank) \<Longrightarrow> fill_fields keys entries d = (None, d)"
  by (induction keys) simp_all

lemma form_block_blank:
  assumes "\<And>key. text_input w key = Blank"
  shows "st_inputs (fst (snd (form_block st w))) = st_inputs st
       \<and> st_additional_inputs (fst (snd (form_block st w))) = st_additional_inputs st"
  by (simp add: form_block_def fill_fields_blank[OF assms] Let_def)

text \<open>
  C9, as the code has it. The button that returns to the form (lines 137-140) leaves chat
  mode and empties the transcript, and changes nothing else: the stored primary and
  secondary values stay, and the next run of the form, whose text fields are all empty,
  keeps them too.
\<close>

theorem back_button_keeps_design_input:
  assumes "back_button w"
  shows "chat_block lib st w = ([], st\<lparr>st_chat_mode := False, st_messages := []\<rparr>, Rerun)
    \<and> st_messages (fst (snd (chat_block lib st w))) = []
    \<and> st_inputs (fst (snd (chat_block lib st w))) = st_inputs st
    \<and> st_additional_inputs (fst (snd (chat_block lib st w))) = st_additional_inputs st
    \<and> (\<forall>w'. (\<forall>key. text_input w' key = Blank) \<longrightarrow>
          st_inputs (fst (snd (form_block (fst (snd (chat_block lib st w))) w'))) = st_inputs st
        \<and> st_additional_inputs (fst (snd (form_block (fst (snd (chat_block lib st w))) w')))
            = st_additional_inputs st)"
proof -
  from assms have b: "chat_block lib st w = ([], st\<lparr>st_chat_mode := False, st_messages := []\<rparr>, Rerun)"
    by (simp add: chat_block_def)
  have "st_inputs (fst (snd (form_block (st\<lparr>st_chat_mode := False, st_messages := []\<rparr>) w'))) = st_inputs st
        \<and> st_additional_inputs (fst (snd (form_block (st\<lparr>st_chat_mode := False, st_messages := []\<rparr>) w')))
            = st_additional_inputs st" if "\<forall>key. text_input w' key = Blank" for w'
    using form_block_blank[of w' "st\<lparr>st_chat_mode := False, st_messages := []\<rparr>"] that by simp
  with b show ?thesis by simp
qed

text \<open>
  The hypotheses of C9's theorem hold for the chat session of the scenario.
\<close>

theorem back_button_keeps_design_input_witness:
  "back_button press_back
   \<and> chat_block second_sheet_missing chat_state press_back
       = ([], chat_state\<lparr>st_chat_mode := False, st_messages := []\<rparr>, Rerun)
   \<and> st_inputs (fst (snd (chat_block second_sheet_missing chat_state press_back))) = primary_150
   \<and> (\<forall>key. text_input no_widgets key = Blank)
   \<and> st_inputs (fst (snd (form_block
        (fst (snd (chat_block second_sheet_missing chat_state press_back))) no_widgets)))
       = primary_150"
proof -
  have p: "back_button press_back" by (simp add: press_back_def)
  note T = back_button_keeps_design_input[OF p, of second_sheet_missing chat_state]
  have n: "\<forall>key. text_input no_widgets key = Blank" by (simp add: no_widgets_def)
  have i: "st_inputs chat_state = primary_150" by (simp add: chat_state_def form_state_def)
  from T n have "st_inputs (fst (snd (form_block
        (fst (snd (chat_block second_sheet_missing chat_state press_back))) no_widgets)))
       = st_inputs chat_state" by blast
  with T p n i show ?thesis by simp
qed

text \<open>
  C9 as stated fails: after the button, the session still holds the length 150 and the
  temperature 25, where the initial session holds \<open>None\<close> for both.
\<close>

theorem back_button_reset_counterexample:
  "back_button press_back
   \<and> st_inputs (fst (snd (chat_block second_sheet_missing chat_state press_back)))
        ''kiban_nagasa_mm'' = Some (Some 150)
   \<and> st_inputs init_session ''kiban_nagasa_mm'' = Some None
   \<and> st_additional_inputs (fst (snd (chat_block second_sheet_missing chat_state press_back)))
        ''ondo_C'' = Some (Some 25)
   \<and> st_additional_inputs init_session ''ondo_C'' = Some None
   \<and> st_messages (fst (snd (chat_block second_sheet_missing chat_state press_back))) = []"
  by (simp add: press_back_def chat_block_def chat_state_def form_state_def primary_150_def
        secondary_150_def init_session_def none_for_def RULES_def ADDITIONAL_KEYS_def)

end
